theory Spec2Isabelle
  imports Main "HOL-Library.Word" "HOL-Library.Sublist"
begin

section \<open>The platform: strings, headers and responses\<close>

text \<open>
  The endpoint core of \<^verbatim>\<open>packages/astro/src/core/endpoint/index.ts\<close> is written against
  the Fetch classes \<^verbatim>\<open>Headers\<close> and \<^verbatim>\<open>Response\<close>, the encoder \<^verbatim>\<open>TextEncoder\<close> and, where
  it exists, Node's \<^verbatim>\<open>Buffer\<close>. They are modelled here as far as the endpoint code uses them.

  Header names, header values, route identifiers and log messages are \<open>string\<close>s. A body
  string is a JavaScript string proper, a sequence of UTF-16 code units, since its bytes
  depend on the encoder.
\<close>

type_synonym js_string = "16 word list"
type_synonym bytes = "8 word list"

subsection \<open>Header lists\<close>

text \<open>
  A \<^verbatim>\<open>Headers\<close> object is its header list: name and value pairs in the order of insertion,
  the names spelt as they were given. Names are compared without regard to the case of
  ASCII letters, as the Fetch standard has it.

  The functions of this subsection are the standard's operations on the header list,
  which take a name and a value as they are. The methods of the class, which first trim
  the value and refuse what is no header name or no header value, follow with the
  responses below.
\<close>

type_synonym Headers = "(string \<times> string) list"

definition ascii_lower :: "char \<Rightarrow> char" where
  "ascii_lower c =
     (case map_of (zip ''ABCDEFGHIJKLMNOPQRSTUVWXYZ'' ''abcdefghijklmnopqrstuvwxyz'') c of
        Some d \<Rightarrow> d
      | None \<Rightarrow> c)"

definition same_name :: "string \<Rightarrow> string \<Rightarrow> bool" where
  "same_name a b = (map ascii_lower a = map ascii_lower b)"

fun join_values :: "string list \<Rightarrow> string" where
  "join_values [] = []"
| "join_values [v] = v"
| "join_values (v # w # vs) = v @ '', '' @ join_values (w # vs)"

definition headers_values :: "Headers \<Rightarrow> string \<Rightarrow> string list" where
  "headers_values h n = map snd (filter (\<lambda>kv. same_name (fst kv) n) h)"

text \<open>\<^verbatim>\<open>headers.get(name)\<close>: \<^verbatim>\<open>null\<close> when no header has the name, else the values joined.\<close>

definition headers_get :: "Headers \<Rightarrow> string \<Rightarrow> string option" where
  "headers_get h n =
     (if headers_values h n = [] then None else Some (join_values (headers_values h n)))"

definition headers_has :: "Headers \<Rightarrow> string \<Rightarrow> bool" where
  "headers_has h n = (headers_values h n \<noteq> [])"

definition headers_append :: "Headers \<Rightarrow> string \<Rightarrow> string \<Rightarrow> Headers" where
  "headers_append h n v = h @ [(n, v)]"

fun replace_first :: "string \<Rightarrow> string \<Rightarrow> Headers \<Rightarrow> Headers" where
  "replace_first n v [] = []"
| "replace_first n v (kv # h) =
     (if same_name (fst kv) n
      then (fst kv, v) # filter (\<lambda>kw. \<not> same_name (fst kw) n) h
      else kv # replace_first n v h)"

text \<open>
  \<^verbatim>\<open>headers.set(name, value)\<close>: the first header of that name takes the value and the
  others of that name go; with no such header the pair is appended.
\<close>

definition headers_set :: "Headers \<Rightarrow> string \<Rightarrow> string \<Rightarrow> Headers" where
  "headers_set h n v = (if headers_has h n then replace_first n v h else headers_append h n v)"

text \<open>\<^verbatim>\<open>headers.getSetCookie()\<close>: the values of the \<^verbatim>\<open>Set-Cookie\<close> headers, one by one.\<close>

definition headers_getSetCookie :: "Headers \<Rightarrow> string list" where
  "headers_getSetCookie h = headers_values h ''Set-Cookie''"

subsection \<open>Responses\<close>

text \<open>
  A response is the value of its fields: the same response is a response with the same
  status, status text, headers and body.
\<close>

datatype BodyInit = BodyString js_string | BodyBytes bytes

record Response =
  status :: nat
  statusText :: string
  headers :: Headers
  body :: "BodyInit option"

text \<open>
  The headers of an init are a record of names and values, as in \<^verbatim>\<open>{ Location: path }\<close>, or
  a \<^verbatim>\<open>Headers\<close> object. The status of an init is a number; it is a natural number here.
\<close>

datatype HeadersInit = FromRecord "(string \<times> string) list" | FromHeaders Headers

record ResponseInit =
  init_status :: "nat option"
  init_statusText :: "string option"
  init_headers :: "HeadersInit option"

text \<open>
  What is thrown: the platform's \<^verbatim>\<open>TypeError\<close> and \<^verbatim>\<open>RangeError\<close>, an \<^verbatim>\<open>AstroError\<close> built
  from an entry of \<^verbatim>\<open>AstroErrorData\<close> (the first entry with the message made for it), and
  whatever a handler or a middleware throws.
\<close>

datatype AstroErrorData =
    ClientAddressNotAvailable string
  | StaticClientAddressNotAvailable
  | LocalsNotAnObject

datatype js_error =
    TypeError string
  | RangeError string
  | AstroError AstroErrorData
  | Thrown string

definition null_body_status :: "nat \<Rightarrow> bool" where
  "null_body_status s = (s = 101 \<or> s = 103 \<or> s = 204 \<or> s = 205 \<or> s = 304)"

text \<open>
  The method \<^verbatim>\<open>append\<close> of the class \<^verbatim>\<open>Headers\<close> after the Fetch standard. The value is
  normalized first: the HTTP whitespace bytes (tab, line feed, carriage return, space) at
  its two ends are dropped. A name that is no token, or a value that holds a NUL, a line
  feed or a carriage return, is refused with a \<^verbatim>\<open>TypeError\<close>. The guards of the standard are
  left out: the server runtimes do not apply them to the headers of a response.
\<close>

definition is_http_whitespace :: "char \<Rightarrow> bool" where
  "is_http_whitespace c = (c = CHR 0x09 \<or> c = CHR 0x0A \<or> c = CHR 0x0D \<or> c = CHR 0x20)"

definition normalize_value :: "string \<Rightarrow> string" where
  "normalize_value v =
     rev (dropWhile is_http_whitespace (rev (dropWhile is_http_whitespace v)))"

definition is_header_value :: "string \<Rightarrow> bool" where
  "is_header_value v =
     (list_all (\<lambda>c. c \<noteq> CHR 0x00 \<and> c \<noteq> CHR 0x0A \<and> c \<noteq> CHR 0x0D) v
      \<and> (case v of
            [] \<Rightarrow> True
          | c # _ \<Rightarrow> c \<noteq> CHR 0x09 \<and> c \<noteq> CHR 0x20 \<and> last v \<noteq> CHR 0x09 \<and> last v \<noteq> CHR 0x20))"

definition token_chars :: string where
  "token_chars =
     ''!#$%&*+-.^_`|~0123456789abcdefghijklmnopqrstuvwxyzABCDEFGHIJKLMNOPQRSTUVWXYZ''
     @ [CHR 0x27]"

definition is_header_name :: "string \<Rightarrow> bool" where
  "is_header_name n = (n \<noteq> [] \<and> list_all (\<lambda>c. c \<in> set token_chars) n)"

definition Headers_append :: "Headers \<Rightarrow> string \<Rightarrow> string \<Rightarrow> js_error + Headers" where
  "Headers_append h n v =
     (if is_header_name n \<and> is_header_value (normalize_value v)
      then Inr (headers_append h n (normalize_value v))
      else Inl (TypeError ''Invalid header''))"

text \<open>The filling of a \<^verbatim>\<open>Headers\<close> object from a record: one \<^verbatim>\<open>append\<close> per pair.\<close>

fun headers_fill :: "Headers \<Rightarrow> (string \<times> string) list \<Rightarrow> js_error + Headers" where
  "headers_fill h [] = Inr h"
| "headers_fill h (kv # l) =
     (case Headers_append h (fst kv) (snd kv) of
        Inl e \<Rightarrow> Inl e
      | Inr h' \<Rightarrow> headers_fill h' l)"

text \<open>
  The headers that \<^verbatim>\<open>new Response\<close> starts from. A record is filled in pair by pair. A
  \<^verbatim>\<open>Headers\<close> object is copied: its values were normalized and checked when they were put
  into it.
\<close>

definition init_header_list :: "HeadersInit option \<Rightarrow> js_error + Headers" where
  "init_header_list hi =
     (case hi of
        None \<Rightarrow> Inr []
      | Some (FromRecord l) \<Rightarrow> headers_fill [] l
      | Some (FromHeaders h) \<Rightarrow> Inr h)"

text \<open>A status text has to be a reason phrase: tabs, spaces, visible ASCII and bytes from 0x80.\<close>

definition is_reason_phrase :: "string \<Rightarrow> bool" where
  "is_reason_phrase t =
     list_all (\<lambda>c. c = CHR 0x09 \<or> c = CHR 0x20
                  \<or> (0x21 \<le> (of_char c :: nat) \<and> (of_char c :: nat) \<le> 0x7E)
                  \<or> 0x80 \<le> (of_char c :: nat)) t"

text \<open>
  \<^verbatim>\<open>new Response(body, init)\<close> after the Fetch standard, in the order of its steps. The
  status of the init is an \<^verbatim>\<open>unsigned short\<close>: the number is taken modulo 65536; it defaults
  to 200 and has to lie in 200..599 (a \<^verbatim>\<open>RangeError\<close> otherwise). The status text has to be
  a reason phrase and the headers are filled from the init (a \<^verbatim>\<open>TypeError\<close> otherwise). A
  body with a null-body status is a \<^verbatim>\<open>TypeError\<close>; a string body brings the content type
  \<^verbatim>\<open>text/plain;charset=UTF-8\<close> when the headers name none. Of the body kinds only strings and
  byte sequences are modelled, the two the endpoint code passes.
\<close>

definition new_Response :: "BodyInit option \<Rightarrow> ResponseInit \<Rightarrow> js_error + Response" where
  "new_Response b init =
     (let s = (case init_status init of None \<Rightarrow> 200 | Some n \<Rightarrow> n mod 65536);
          t = (case init_statusText init of None \<Rightarrow> [] | Some x \<Rightarrow> x)
      in if s < 200 \<or> 599 < s then Inl (RangeError ''status'')
         else if \<not> is_reason_phrase t then Inl (TypeError ''statusText'')
         else case init_header_list (init_headers init) of
           Inl e \<Rightarrow> Inl e
         | Inr hs \<Rightarrow>
             (case b of
                None \<Rightarrow> Inr \<lparr>status = s, statusText = t, headers = hs, body = None\<rparr>
              | Some bd \<Rightarrow>
                  if null_body_status s then Inl (TypeError ''null body status'')
                  else Inr \<lparr>status = s, statusText = t,
                       headers =
                         (case bd of
                            BodyString _ \<Rightarrow>
                              (if headers_has hs ''Content-Type'' then hs
                               else headers_append hs ''Content-Type''
                                      ''text/plain;charset=UTF-8'')
                          | BodyBytes _ \<Rightarrow> hs),
                       body = Some bd\<rparr>))"

subsection \<open>Encoders and number formatting\<close>

definition is_lead :: "16 word \<Rightarrow> bool" where
  "is_lead u = (0xD800 \<le> u \<and> u \<le> 0xDBFF)"

definition is_trail :: "16 word \<Rightarrow> bool" where
  "is_trail u = (0xDC00 \<le> u \<and> u \<le> 0xDFFF)"

text \<open>
  The scalar values of a JavaScript string: a lead surrogate and the trail surrogate after
  it make one code point, a surrogate on its own becomes U+FFFD.
\<close>

fun scalar_values :: "js_string \<Rightarrow> nat list" where
  "scalar_values [] = []"
| "scalar_values [u] = [if is_lead u \<or> is_trail u then 0xFFFD else unat u]"
| "scalar_values (u # v # us) =
     (if is_lead u \<and> is_trail v
      then (0x10000 + (unat u - 0xD800) * 0x400 + (unat v - 0xDC00)) # scalar_values us
      else (if is_lead u \<or> is_trail u then 0xFFFD else unat u) # scalar_values (v # us))"

definition utf8_bytes :: "nat \<Rightarrow> bytes" where
  "utf8_bytes c =
     (if c < 0x80 then [of_nat c]
      else if c < 0x800 then [of_nat (0xC0 + c div 0x40), of_nat (0x80 + c mod 0x40)]
      else if c < 0x10000 then
        [of_nat (0xE0 + c div 0x1000), of_nat (0x80 + c div 0x40 mod 0x40),
         of_nat (0x80 + c mod 0x40)]
      else
        [of_nat (0xF0 + c div 0x40000), of_nat (0x80 + c div 0x1000 mod 0x40),
         of_nat (0x80 + c div 0x40 mod 0x40), of_nat (0x80 + c mod 0x40)])"

text \<open>\<^verbatim>\<open>encoder.encode(s)\<close> of the \<^verbatim>\<open>TextEncoder\<close> of line 18: the UTF-8 bytes of \<open>s\<close>.\<close>

definition TextEncoder_encode :: "js_string \<Rightarrow> bytes" where
  "TextEncoder_encode s = concat (map utf8_bytes (scalar_values s))"

text \<open>
  Node's type \<^verbatim>\<open>BufferEncoding\<close>, the type of an encoding in the source (line 96), with
  the spelling of each name. No name is the empty string, so an encoding that is declared
  is truthy.
\<close>

datatype BufferEncoding =
    Enc_ascii | Enc_utf8 | Enc_utf_8 | Enc_utf16le | Enc_ucs2 | Enc_ucs_2
  | Enc_base64 | Enc_base64url | Enc_latin1 | Enc_binary | Enc_hex

fun encoding_name :: "BufferEncoding \<Rightarrow> string" where
  "encoding_name Enc_ascii = ''ascii''"
| "encoding_name Enc_utf8 = ''utf8''"
| "encoding_name Enc_utf_8 = ''utf-8''"
| "encoding_name Enc_utf16le = ''utf16le''"
| "encoding_name Enc_ucs2 = ''ucs2''"
| "encoding_name Enc_ucs_2 = ''ucs-2''"
| "encoding_name Enc_base64 = ''base64''"
| "encoding_name Enc_base64url = ''base64url''"
| "encoding_name Enc_latin1 = ''latin1''"
| "encoding_name Enc_binary = ''binary''"
| "encoding_name Enc_hex = ''hex''"

text \<open>
  \<^verbatim>\<open>Buffer.from(string, encoding)\<close>: the encoding defaults to UTF-8, and the UTF-8 bytes
  are those of the encoder above. What the other encodings make of a string is the
  parameter \<open>conv\<close>.
\<close>

definition Buffer_from ::
  "(BufferEncoding \<Rightarrow> js_string \<Rightarrow> bytes) \<Rightarrow> js_string \<Rightarrow> BufferEncoding option \<Rightarrow> bytes" where
  "Buffer_from conv s enc =
     (case enc of
        None \<Rightarrow> TextEncoder_encode s
      | Some e \<Rightarrow>
          if e = Enc_utf8 \<or> e = Enc_utf_8 then TextEncoder_encode s else conv e s)"

text \<open>\<^verbatim>\<open>n.toString()\<close> of a byte length: the decimal digits of \<open>n\<close>.\<close>

definition digit_char :: "nat \<Rightarrow> char" where
  "digit_char d = ''0123456789'' ! d"

fun toString :: "nat \<Rightarrow> string" where
  "toString n = (if n < 10 then [digit_char n] else toString (n div 10) @ [digit_char (n mod 10)])"

declare toString.simps [simp del]

text \<open>
  What the endpoint code finds around it: the global \<^verbatim>\<open>Buffer\<close> when there is one (with
  its conversions for the encodings other than UTF-8), the lookup \<^verbatim>\<open>mime.getType\<close> of the
  \<^verbatim>\<open>mime\<close> package, the URL parser behind \<^verbatim>\<open>new URL\<close> and the constant \<^verbatim>\<open>ASTRO_VERSION\<close>.
\<close>

record platform =
  Buffer :: "(BufferEncoding \<Rightarrow> js_string \<Rightarrow> bytes) option"
  mime_getType :: "string \<Rightarrow> string option"
  URL_parse :: "string \<Rightarrow> string option"
  ASTRO_VERSION :: string

subsection \<open>Values\<close>

text \<open>
  JavaScript values as far as \<^verbatim>\<open>typeof\<close> tells them apart. An object or a function is
  a reference; arrays are objects. The payload of a number plays no part here.
\<close>

datatype js_value =
    JUndefined | JNull | JBoolean bool | JNumber int | JBigInt int | JString string
  | JSymbol nat | JObject nat | JFunction nat

fun typeof :: "js_value \<Rightarrow> string" where
  "typeof JUndefined = ''undefined''"
| "typeof JNull = ''object''"
| "typeof (JBoolean _) = ''boolean''"
| "typeof (JNumber _) = ''number''"
| "typeof (JBigInt _) = ''bigint''"
| "typeof (JString _) = ''string''"
| "typeof (JSymbol _) = ''symbol''"
| "typeof (JObject _) = ''object''"
| "typeof (JFunction _) = ''function''"

text \<open>The language's own notion of an object value: objects and functions, not \<^verbatim>\<open>null\<close>.\<close>

fun is_object :: "js_value \<Rightarrow> bool" where
  "is_object (JObject _) = True"
| "is_object (JFunction _) = True"
| "is_object _ = False"

section \<open>The request context\<close>

text \<open>
  A request, as far as the endpoint code reads and writes it: its address and the two
  properties kept on it under the symbols \<^verbatim>\<open>astro.clientAddress\<close> and \<^verbatim>\<open>astro.locals\<close>
  (lines 20 and 21), each absent or holding a value.
\<close>

record Request =
  req_url :: string
  req_clientAddress :: "js_value option"
  req_locals :: "js_value option"

text \<open>
  Modelled from the spec: the class \<^verbatim>\<open>AstroCookies\<close> of \<^verbatim>\<open>core/cookies\<close>, which is not among
  the sources. The spec: a jar constructed from a request, mutated by handler and
  middleware, that exposes its accumulated set-cookie entries. The jar is the list of
  these entries; a new jar has none.
\<close>

type_synonym AstroCookies = "string list"

definition new_AstroCookies :: "Request \<Rightarrow> AstroCookies" where
  "new_AstroCookies rq = []"

record CreateAPIContext =
  payload_request :: Request
  payload_params :: "(string \<times> string) list"
  payload_site :: "string option"
  payload_props :: "(string \<times> js_value) list"
  payload_adapterName :: "string option"

text \<open>
  The context object of lines 43 to 74. Its methods and accessors are the functions
  below; \<open>adapterName\<close> is the variable the accessor \<^verbatim>\<open>clientAddress\<close> closes over, and
  \<open>request\<close> is the one request object that the context and its accessors share.
\<close>

record APIContext =
  cookies :: AstroCookies
  request :: Request
  params :: "(string \<times> string) list"
  site :: "string option"
  generator :: string
  props :: "(string \<times> js_value) list"
  url :: string
  adapterName :: "string option"

text \<open>The truth value of an optional string: \<^verbatim>\<open>undefined\<close>, \<^verbatim>\<open>null\<close> and \<^verbatim>\<open>''\<close> are falsy.\<close>

definition truthy :: "string option \<Rightarrow> bool" where
  "truthy x = (case x of None \<Rightarrow> False | Some s \<Rightarrow> s \<noteq> [])"

definition new_URL :: "platform \<Rightarrow> string \<Rightarrow> js_error + string" where
  "new_URL P s = (case URL_parse P s of None \<Rightarrow> Inl (TypeError ''Invalid URL'') | Some u \<Rightarrow> Inr u)"

text \<open>\<^verbatim>\<open>createAPIContext\<close> (lines 36 to 91).\<close>

definition createAPIContext :: "platform \<Rightarrow> CreateAPIContext \<Rightarrow> js_error + APIContext" where
  "createAPIContext P pl =
     (case (if truthy (payload_site pl)
            then map_sum id Some (new_URL P (the (payload_site pl)))
            else Inr None) of
        Inl e \<Rightarrow> Inl e
      | Inr st \<Rightarrow>
          (case new_URL P (req_url (payload_request pl)) of
             Inl e \<Rightarrow> Inl e
           | Inr u \<Rightarrow>
               Inr \<lparr>cookies = new_AstroCookies (payload_request pl),
                    request = payload_request pl,
                    params = payload_params pl,
                    site = st,
                    generator = ''Astro v'' @ ASTRO_VERSION P,
                    props = payload_props pl,
                    url = u,
                    adapterName = payload_adapterName pl\<rparr>))"

text \<open>
  Modelled from the spec: \<^verbatim>\<open>AstroErrorData.ClientAddressNotAvailable.message\<close> of
  \<^verbatim>\<open>core/errors\<close>, which is not among the sources. The spec: a message parameterized by
  the adapter name, containing that name.
\<close>

definition ClientAddressNotAvailable_message :: "string \<Rightarrow> string" where
  "ClientAddressNotAvailable_message name =
     ''Astro.clientAddress is not available in the '' @ name @ '' adapter.''"

text \<open>The accessor \<^verbatim>\<open>clientAddress\<close> (lines 60 to 73).\<close>

definition clientAddress :: "APIContext \<Rightarrow> js_error + js_value" where
  "clientAddress c =
     (case req_clientAddress (request c) of
        None \<Rightarrow>
          if truthy (adapterName c)
          then Inl (AstroError (ClientAddressNotAvailable
                 (ClientAddressNotAvailable_message (the (adapterName c)))))
          else Inl (AstroError StaticClientAddressNotAvailable)
      | Some v \<Rightarrow> Inr v)"

text \<open>
  The property \<^verbatim>\<open>locals\<close> (lines 77 to 89): reading gives what the request holds under
  the symbol (\<^verbatim>\<open>undefined\<close> when nothing was stored), writing checks \<^verbatim>\<open>typeof\<close> and stores
  on the request.
\<close>

definition locals_get :: "APIContext \<Rightarrow> js_value" where
  "locals_get c = (case req_locals (request c) of None \<Rightarrow> JUndefined | Some v \<Rightarrow> v)"

definition locals_set :: "APIContext \<Rightarrow> js_value \<Rightarrow> js_error + APIContext" where
  "locals_set c val =
     (if typeof val \<noteq> ''object'' then Inl (AstroError LocalsNotAnObject)
      else Inr (c\<lparr>request := (request c)\<lparr>req_locals := Some val\<rparr>\<rparr>))"

text \<open>
  \<^verbatim>\<open>redirect(path, status)\<close> of \<^verbatim>\<open>createAPIContext\<close> (lines 50 to 57). The status is
  optional; \<^verbatim>\<open>status || 302\<close> takes 302 for a missing status and for the falsy number 0.
  The path is a string of bytes: a JavaScript string with a code unit above 255 is no
  header value and is refused by \<^verbatim>\<open>new Response\<close> before anything else is done with it.
\<close>

definition redirect :: "string \<Rightarrow> nat option \<Rightarrow> js_error + Response" where
  "redirect path st =
     new_Response None
       \<lparr>init_status = Some (case st of None \<Rightarrow> 302 | Some s \<Rightarrow> if s = 0 then 302 else s),
        init_statusText = None,
        init_headers = Some (FromRecord [(''Location'', path)])\<rparr>"

text \<open>
  The class \<^verbatim>\<open>ResponseWithEncoding\<close> (lines 95 to 100): the constructor. The value given to
  \<^verbatim>\<open>headers.set\<close> is the name of an encoding, a header value as it stands, so the method is
  the operation on the header list.
\<close>

definition ResponseWithEncoding ::
  "BodyInit option \<Rightarrow> ResponseInit \<Rightarrow> BufferEncoding \<Rightarrow> js_error + Response" where
  "ResponseWithEncoding b init encoding =
     (case new_Response b init of
        Inl e \<Rightarrow> Inl e
      | Inr this \<Rightarrow>
          Inr (this\<lparr>headers := headers_set (headers this) ''X-Astro-Encoding''
                                  (encoding_name encoding)\<rparr>))"

section \<open>Calling an endpoint\<close>

record RouteData =
  route :: string
  prerender :: bool

record RenderContext =
  ctx_request :: Request
  ctx_params :: "(string \<times> string) list"
  ctx_props :: "(string \<times> js_value) list"
  ctx_route :: "RouteData option"

record Environment =
  env_ssr :: bool
  env_site :: "string option"
  env_adapterName :: "string option"

text \<open>
  What a handler hands back: a \<^verbatim>\<open>Response\<close>, or the simple object of old with a body (a
  string or a \<^verbatim>\<open>Uint8Array\<close>), maybe an encoding and maybe a property \<^verbatim>\<open>headers\<close>
  (\<open>out_headers\<close> is \<open>None\<close> when the object has no such property of its own).
\<close>

datatype OutputBody = StringBody js_string | Uint8ArrayBody bytes

record EndpointOutput =
  out_body :: OutputBody
  out_encoding :: "BufferEncoding option"
  out_headers :: "(string \<times> string) list option"

datatype EndpointResult = NativeResponse Response | SimpleObject EndpointOutput

text \<open>
  A handler and a middleware are functions of the caller. Either may throw, and either
  may change the context it is given (its cookie jar above all), so each returns the
  context along with its result. A middleware also gets the continuation \<open>next\<close>.
\<close>

type_synonym EndpointHandler = "APIContext \<Rightarrow> js_error + (EndpointResult \<times> APIContext)"

type_synonym MiddlewareHandler =
  "APIContext \<Rightarrow> (APIContext \<Rightarrow> js_error + (EndpointResult \<times> APIContext))
     \<Rightarrow> js_error + (EndpointResult \<times> APIContext)"

text \<open>
  Modelled from the spec: \<^verbatim>\<open>renderEndpoint\<close> of \<^verbatim>\<open>runtime/server\<close> and \<^verbatim>\<open>callMiddleware\<close> of
  \<^verbatim>\<open>core/middleware\<close>, which are not among the sources. The spec: the handler is invoked
  against the context and its return value is the raw result; the middleware chain is
  given the same context and a continuation that invokes the handler, and whatever the
  chain returns becomes the raw result.
\<close>

definition renderEndpoint ::
  "EndpointHandler \<Rightarrow> APIContext \<Rightarrow> bool \<Rightarrow> js_error + (EndpointResult \<times> APIContext)" where
  "renderEndpoint handler context ssr = handler context"

definition callMiddleware ::
  "MiddlewareHandler \<Rightarrow> APIContext \<Rightarrow> (APIContext \<Rightarrow> js_error + (EndpointResult \<times> APIContext))
     \<Rightarrow> js_error + (EndpointResult \<times> APIContext)" where
  "callMiddleware onRequest context next = onRequest context next"

text \<open>
  Modelled from the spec: \<^verbatim>\<open>warn\<close> of \<^verbatim>\<open>core/logger\<close>, which is not among the sources. The
  spec: the logging sink accepts a channel and a message for a non-fatal warning. The
  sink is the list of the warnings it was given.
\<close>

type_synonym logging = "(string \<times> string) list"

definition warn :: "logging \<Rightarrow> string \<Rightarrow> string \<Rightarrow> logging" where
  "warn sink channel message = sink @ [(channel, message)]"

text \<open>
  Modelled from the spec: \<^verbatim>\<open>attachCookiesToResponse\<close> of \<^verbatim>\<open>core/cookies\<close>, which is not among
  the sources. The spec: the operation merges the jar's accumulated set-cookie entries
  into the response headers, and is idempotent if called with no entries.
\<close>

definition attachCookiesToResponse :: "Response \<Rightarrow> AstroCookies \<Rightarrow> Response" where
  "attachCookiesToResponse response jar =
     response\<lparr>headers := foldl (\<lambda>h c. headers_append h ''Set-Cookie'' c) (headers response) jar\<rparr>"

text \<open>The messages of the four warnings (lines 137, 150, 158 and 166).\<close>

definition see_docs :: string where
  "see_docs = '' See https://docs.astro.build/en/core-concepts/endpoints/#server-endpoints-api-routes for more information.''"

definition msg_ResponseWithEncoding_ignored :: string where
  "msg_ResponseWithEncoding_ignored =
     ''`ResponseWithEncoding` is ignored in SSR. Please return an instance of Response.'' @ see_docs"

definition msg_simple_object :: "string \<Rightarrow> string" where
  "msg_simple_object r =
     r @ '' returns a simple object which is deprecated. Please return an instance of Response.'' @ see_docs"

definition msg_headers_unsupported :: string where
  "msg_headers_unsupported =
     ''Setting headers is not supported when returning an object. Please return an instance of Response.'' @ see_docs"

definition msg_encoding_ignored :: string where
  "msg_encoding_ignored =
     ''`encoding` is ignored in SSR. To return a charset other than UTF-8, please return an instance of Response.'' @ see_docs"

text \<open>Lines 108 to 128 of \<^verbatim>\<open>callEndpoint\<close>: the context is built and the handler run.\<close>

definition callEndpoint_invoke ::
  "platform \<Rightarrow> EndpointHandler \<Rightarrow> Environment \<Rightarrow> RenderContext \<Rightarrow> MiddlewareHandler option
     \<Rightarrow> js_error + (EndpointResult \<times> APIContext)" where
  "callEndpoint_invoke P handler env ctx onRequest =
     (case createAPIContext P
             \<lparr>payload_request = ctx_request ctx,
              payload_params = ctx_params ctx,
              payload_site = env_site env,
              payload_props = ctx_props ctx,
              payload_adapterName = env_adapterName env\<rparr> of
        Inl e \<Rightarrow> Inl e
      | Inr context \<Rightarrow>
          (case onRequest of
             Some mw \<Rightarrow>
               callMiddleware mw context (\<lambda>c. renderEndpoint handler c (env_ssr env))
           | None \<Rightarrow> renderEndpoint handler context (env_ssr env)))"

text \<open>Line 130: \<^verbatim>\<open>env.ssr && !ctx.route?.prerender\<close>; an absent route is not prerendered.\<close>

definition isEndpointSSR :: "Environment \<Rightarrow> RenderContext \<Rightarrow> bool" where
  "isEndpointSSR env ctx =
     (env_ssr env \<and> \<not> (case ctx_route ctx of None \<Rightarrow> False | Some r \<Rightarrow> prerender r))"

text \<open>Lines 132 to 142: the handler gave a \<^verbatim>\<open>Response\<close>.\<close>

definition callEndpoint_response :: "bool \<Rightarrow> Response \<Rightarrow> AstroCookies \<Rightarrow> Response \<times> logging" where
  "callEndpoint_response ssr response jar =
     (attachCookiesToResponse response jar,
      if ssr \<and> truthy (headers_get (headers response) ''X-Astro-Encoding'')
      then warn [] ''ssr'' msg_ResponseWithEncoding_ignored
      else [])"

text \<open>Lines 183 to 209: the body and the header \<^verbatim>\<open>Content-Length\<close>.\<close>

definition resolve_body :: "platform \<Rightarrow> EndpointOutput \<Rightarrow> Headers \<Rightarrow> BodyInit \<times> Headers" where
  "resolve_body P obj hs =
     (case out_body obj of
        Uint8ArrayBody bs \<Rightarrow>
          (BodyBytes bs, headers_set hs ''Content-Length'' (toString (length bs)))
      | StringBody s \<Rightarrow>
          (case Buffer P of
             Some conv \<Rightarrow>
               (let bs = Buffer_from conv s (out_encoding obj)
                in (BodyBytes bs, headers_set hs ''Content-Length'' (toString (length bs))))
           | None \<Rightarrow>
               if out_encoding obj = None \<or> out_encoding obj = Some Enc_utf8
                  \<or> out_encoding obj = Some Enc_utf_8
               then (let bs = TextEncoder_encode s
                     in (BodyBytes bs, headers_set hs ''Content-Length'' (toString (length bs))))
               else (BodyString s, hs)))"

text \<open>Line 174: \<^verbatim>\<open>mime.getType(ctx.route.route) || 'text/plain'\<close>.\<close>

definition mimeType :: "platform \<Rightarrow> string \<Rightarrow> string" where
  "mimeType P rt =
     (if truthy (mime_getType P rt) then the (mime_getType P rt) else ''text/plain'')"

text \<open>
  Lines 144 to 216: the handler gave a simple object. \<^verbatim>\<open>ctx.route.route\<close> is read without
  a guard, first for the warning of line 150: with no route this is a \<^verbatim>\<open>TypeError\<close>. The
  values given to \<^verbatim>\<open>headers.set\<close> are a MIME type of the \<^verbatim>\<open>mime\<close> package with a charset, the
  name of an encoding and the digits of a length: header values as they stand, so the
  method is the operation on the header list.
\<close>

definition callEndpoint_object ::
  "platform \<Rightarrow> bool \<Rightarrow> RouteData option \<Rightarrow> EndpointOutput \<Rightarrow> AstroCookies
     \<Rightarrow> js_error + (Response \<times> logging)" where
  "callEndpoint_object P ssr rt obj jar =
     (case rt of
        None \<Rightarrow> Inl (TypeError ''Cannot read properties of undefined'')
      | Some r \<Rightarrow>
          (let log1 = warn [] ''astro'' (msg_simple_object (route r));
               log2 = (if ssr \<and> out_headers obj \<noteq> None
                       then warn log1 ''ssr'' msg_headers_unsupported else log1);
               log3 = (if ssr \<and> out_encoding obj \<noteq> None
                       then warn log2 ''ssr'' msg_encoding_ignored else log2);
               h1 = headers_set [] ''Content-Type'' (mimeType P (route r) @ '';charset=utf-8'');
               h2 = (case out_encoding obj of
                       None \<Rightarrow> h1
                     | Some e \<Rightarrow> headers_set h1 ''X-Astro-Encoding'' (encoding_name e));
               (bd, h3) = resolve_body P obj h2
           in case new_Response (Some bd)
                     \<lparr>init_status = Some 200, init_statusText = None,
                      init_headers = Some (FromHeaders h3)\<rparr> of
                Inl e \<Rightarrow> Inl e
              | Inr response \<Rightarrow> Inr (attachCookiesToResponse response jar, log3)))"

text \<open>\<^verbatim>\<open>callEndpoint\<close> (lines 102 to 217): the response and the warnings given to the sink.\<close>

definition callEndpoint ::
  "platform \<Rightarrow> EndpointHandler \<Rightarrow> Environment \<Rightarrow> RenderContext \<Rightarrow> MiddlewareHandler option
     \<Rightarrow> js_error + (Response \<times> logging)" where
  "callEndpoint P handler env ctx onRequest =
     (case callEndpoint_invoke P handler env ctx onRequest of
        Inl e \<Rightarrow> Inl e
      | Inr (result, context) \<Rightarrow>
          (case result of
             NativeResponse response \<Rightarrow>
               Inr (callEndpoint_response (isEndpointSSR env ctx) response (cookies context))
           | SimpleObject obj \<Rightarrow>
               callEndpoint_object P (isEndpointSSR env ctx) (ctx_route ctx) obj
                 (cookies context)))"

section \<open>Sample inputs\<close>

text \<open>
  Concrete platforms, requests and handlers, on which the theorems below are run. The
  sample conversion of the first platform takes the low byte of each code unit, as the
  encodings \<^verbatim>\<open>latin1\<close> and \<^verbatim>\<open>binary\<close> do.
\<close>

definition sample_mime :: "string \<Rightarrow> string option" where
  "sample_mime r =
     (if r = ''/a.txt'' then Some ''text/plain''
      else if r = ''/data.json'' then Some ''application/json''
      else None)"

definition node_platform :: platform where
  "node_platform =
     \<lparr>Buffer = Some (\<lambda>e s. map ucast s), mime_getType = sample_mime, URL_parse = Some,
      ASTRO_VERSION = ''2.6.3''\<rparr>"

definition web_platform :: platform where
  "web_platform =
     \<lparr>Buffer = None, mime_getType = sample_mime, URL_parse = Some, ASTRO_VERSION = ''2.6.3''\<rparr>"

definition sample_request :: Request where
  "sample_request =
     \<lparr>req_url = ''http://localhost:3000/a.txt'', req_clientAddress = None, req_locals = None\<rparr>"

definition sample_payload :: "string option \<Rightarrow> CreateAPIContext" where
  "sample_payload name =
     \<lparr>payload_request = sample_request, payload_params = [], payload_site = None,
      payload_props = [], payload_adapterName = name\<rparr>"

definition sample_context :: "string option \<Rightarrow> APIContext" where
  "sample_context name =
     \<lparr>cookies = [], request = sample_request, params = [], site = None,
      generator = ''Astro v2.6.3'', props = [], url = ''http://localhost:3000/a.txt'',
      adapterName = name\<rparr>"

definition sample_ctx :: "RouteData option \<Rightarrow> RenderContext" where
  "sample_ctx rt =
     \<lparr>ctx_request = sample_request, ctx_params = [], ctx_props = [], ctx_route = rt\<rparr>"

definition a_txt :: RouteData where
  "a_txt = \<lparr>route = ''/a.txt'', prerender = False\<rparr>"

definition sample_env :: "bool \<Rightarrow> Environment" where
  "sample_env ssr = \<lparr>env_ssr = ssr, env_site = None, env_adapterName = None\<rparr>"

text \<open>A handler that sets the given cookies on the jar and returns the given result.\<close>

definition sample_handler :: "string list \<Rightarrow> EndpointResult \<Rightarrow> EndpointHandler" where
  "sample_handler cs result c = Inr (result, c\<lparr>cookies := cookies c @ cs\<rparr>)"

text \<open>A middleware that sets a cookie of its own and then runs the handler.\<close>

definition sample_middleware :: "string \<Rightarrow> MiddlewareHandler" where
  "sample_middleware ck c next = next (c\<lparr>cookies := cookies c @ [ck]\<rparr>)"

definition hello :: js_string where
  "hello = [0x68, 0x65, 0x6C, 0x6C, 0x6F]"

definition hello_object :: EndpointOutput where
  "hello_object = \<lparr>out_body = StringBody hello, out_encoding = Some Enc_utf8, out_headers = None\<rparr>"

definition ok_response :: "(string \<times> string) list \<Rightarrow> Response" where
  "ok_response hs = \<lparr>status = 200, statusText = [], headers = hs, body = None\<rparr>"

definition latin1_object :: EndpointOutput where
  "latin1_object = \<lparr>out_body = StringBody hello, out_encoding = Some Enc_latin1, out_headers = None\<rparr>"

definition plain_object :: EndpointOutput where
  "plain_object = \<lparr>out_body = StringBody hello, out_encoding = None, out_headers = None\<rparr>"

definition bytes_object :: EndpointOutput where
  "bytes_object = \<lparr>out_body = Uint8ArrayBody [1, 2, 3], out_encoding = None, out_headers = None\<rparr>"

definition addressed_request :: Request where
  "addressed_request = sample_request\<lparr>req_clientAddress := Some (JString ''203.0.113.7'')\<rparr>"

section \<open>Facts about header lists\<close>

lemma headers_values_append:
  "headers_values (h @ g) n = headers_values h n @ headers_values g n"
  by (simp add: headers_values_def)

lemma same_name_refl [simp]: "same_name n n"
  by (simp add: same_name_def)

lemma headers_values_Nil [simp]: "headers_values [] n = []"
  by (simp add: headers_values_def)

lemma headers_values_Cons:
  "headers_values (kv # h) n =
     (if same_name (fst kv) n then snd kv # headers_values h n else headers_values h n)"
  by (simp add: headers_values_def)

lemma headers_values_filter_other:
  "headers_values (filter (\<lambda>kw. \<not> same_name (fst kw) n) h) m =
     (if same_name m n then [] else headers_values h m)"
  by (induction h) (auto simp: headers_values_Cons, auto simp: same_name_def)

lemma headers_values_replace_first:
  "headers_values (replace_first n v h) m =
     (if same_name m n then (if headers_values h n = [] then [] else [v])
      else headers_values h m)"
proof (induction h)
  case Nil
  show ?case by simp
next
  case (Cons kv h)
  show ?case
  proof (cases "same_name (fst kv) n")
    case True
    then have "same_name (fst kv) m = same_name m n"
      by (auto simp: same_name_def)
    with True show ?thesis
      by (simp add: headers_values_Cons headers_values_filter_other)
  next
    case False
    then have "same_name m n \<Longrightarrow> \<not> same_name (fst kv) m"
      by (auto simp: same_name_def)
    with False Cons.IH show ?thesis
      by (auto simp: headers_values_Cons)
  qed
qed

lemma headers_values_set:
  "headers_values (headers_set h n v) m =
     (if same_name m n then [v] else headers_values h m)"
proof (cases "headers_has h n")
  case True
  then show ?thesis
    by (simp add: headers_set_def headers_has_def headers_values_replace_first)
next
  case False
  then have "same_name m n \<Longrightarrow> headers_values h m = []"
    by (simp add: headers_has_def headers_values_def same_name_def)
  moreover have "same_name n m = same_name m n"
    by (auto simp: same_name_def)
  ultimately show ?thesis
    using False
    by (simp add: headers_set_def headers_append_def headers_values_append headers_values_Cons)
qed

lemma headers_get_set:
  "headers_get (headers_set h n v) m = (if same_name m n then Some v else headers_get h m)"
  by (simp add: headers_get_def headers_values_set)

lemma headers_set_fresh:
  "\<not> headers_has h n \<Longrightarrow> headers_set h n v = h @ [(n, v)]"
  by (simp add: headers_set_def headers_append_def)

lemma headers_values_cookies:
  "headers_values (map (Pair ''Set-Cookie'') jar) n = (if same_name ''Set-Cookie'' n then jar else [])"
  by (induction jar) (simp_all add: headers_values_Cons)

lemma names_differ:
  "\<not> same_name ''Set-Cookie'' ''Content-Type''"
  "\<not> same_name ''Set-Cookie'' ''Content-Length''"
  "\<not> same_name ''Set-Cookie'' ''X-Astro-Encoding''"
  "\<not> same_name ''Content-Type'' ''X-Astro-Encoding''"
  "\<not> same_name ''Content-Type'' ''Content-Length''"
  "\<not> same_name ''X-Astro-Encoding'' ''Content-Length''"
  "\<not> same_name ''X-Astro-Encoding'' ''Content-Type''"
  "\<not> same_name ''Content-Length'' ''Content-Type''"
  "\<not> same_name ''Content-Length'' ''X-Astro-Encoding''"
  by (simp_all add: same_name_def ascii_lower_def)

section \<open>Facts about responses and the simple-object branch\<close>

lemma Location_is_header_name: "is_header_name ''Location''"
  by (simp add: is_header_name_def token_chars_def)

lemma dropWhile_head: "xs = [] \<or> \<not> P (hd xs) \<Longrightarrow> dropWhile P xs = xs"
  by (cases xs) auto

lemma normalize_value_id: "is_header_value v \<Longrightarrow> normalize_value v = v"
proof (cases v)
  case Nil
  then show ?thesis by (simp add: normalize_value_def)
next
  case (Cons c w)
  assume "is_header_value v"
  with Cons have ends: "\<not> is_http_whitespace (hd v)" "\<not> is_http_whitespace (last v)"
    and ne: "v \<noteq> []"
    by (auto simp: is_header_value_def is_http_whitespace_def list_all_iff)
  have "dropWhile is_http_whitespace v = v"
    using ends(1) by (simp add: dropWhile_head)
  moreover have "dropWhile is_http_whitespace (rev v) = rev v"
    using ends(2) ne by (simp add: dropWhile_head hd_rev)
  ultimately show ?thesis by (simp add: normalize_value_def)
qed

lemma new_Response_redirect:
  "200 \<le> s \<Longrightarrow> s \<le> 599 \<Longrightarrow> is_header_value (normalize_value p) \<Longrightarrow>
   new_Response None
       \<lparr>init_status = Some s, init_statusText = None,
        init_headers = Some (FromRecord [(''Location'', p)])\<rparr>
     = Inr \<lparr>status = s, statusText = [], headers = [(''Location'', normalize_value p)],
            body = None\<rparr>"
  by (simp add: new_Response_def init_header_list_def Headers_append_def headers_append_def
        Location_is_header_name is_reason_phrase_def)

lemma attach_eq:
  "attachCookiesToResponse r jar = r\<lparr>headers := headers r @ map (Pair ''Set-Cookie'') jar\<rparr>"
proof -
  have "foldl (\<lambda>h c. headers_append h ''Set-Cookie'' c) h jar = h @ map (Pair ''Set-Cookie'') jar" for h
    by (induction jar arbitrary: h) (simp_all add: headers_append_def)
  then show ?thesis by (simp add: attachCookiesToResponse_def)
qed

lemma resolve_body_split:
  "resolve_body P obj hs =
     (fst (resolve_body P obj []),
      case fst (resolve_body P obj []) of
        BodyBytes bs \<Rightarrow> headers_set hs ''Content-Length'' (toString (length bs))
      | BodyString _ \<Rightarrow> hs)"
  by (auto simp: resolve_body_def Let_def split: OutputBody.splits option.splits)

lemma base_headers:
  "(case enc of
      None \<Rightarrow> headers_set [] ''Content-Type'' ct
    | Some e \<Rightarrow> headers_set (headers_set [] ''Content-Type'' ct) ''X-Astro-Encoding'' (encoding_name e))
   = [(''Content-Type'', ct)]
     @ (case enc of None \<Rightarrow> [] | Some e \<Rightarrow> [(''X-Astro-Encoding'', encoding_name e)])"
  by (simp add: headers_set_def headers_has_def headers_append_def headers_values_Cons names_differ
      split: option.splits)

lemma has_Content_Type:
  "headers_has ((''Content-Type'', ct) # g) ''Content-Type''"
  by (simp add: headers_has_def headers_values_Cons)

lemma base_headers_no_length:
  "\<not> headers_has ((''Content-Type'', ct)
     # (case enc of None \<Rightarrow> [] | Some e \<Rightarrow> [(''X-Astro-Encoding'', encoding_name e)])) ''Content-Length''"
  by (simp add: headers_has_def headers_values_Cons names_differ split: option.splits)

lemma new_Response_200:
  "headers_has hs ''Content-Type'' \<Longrightarrow>
   new_Response (Some bd)
       \<lparr>init_status = Some 200, init_statusText = None, init_headers = Some (FromHeaders hs)\<rparr>
     = Inr \<lparr>status = 200, statusText = [], headers = hs, body = Some bd\<rparr>"
  by (simp add: new_Response_def init_header_list_def is_reason_phrase_def null_body_status_def
        split: BodyInit.splits)

lemma callEndpoint_object_Some:
  "callEndpoint_object P ssr (Some r) obj jar =
     Inr (\<lparr>status = 200, statusText = [],
           headers =
             (''Content-Type'', mimeType P (route r) @ '';charset=utf-8'')
             # (case out_encoding obj of
                  None \<Rightarrow> [] | Some e \<Rightarrow> [(''X-Astro-Encoding'', encoding_name e)])
             @ (case fst (resolve_body P obj []) of
                  BodyBytes bs \<Rightarrow> [(''Content-Length'', toString (length bs))]
                | BodyString _ \<Rightarrow> [])
             @ map (Pair ''Set-Cookie'') jar,
           body = Some (fst (resolve_body P obj []))\<rparr>,
          (''astro'', msg_simple_object (route r))
          # (if ssr \<and> out_headers obj \<noteq> None then [(''ssr'', msg_headers_unsupported)] else [])
          @ (if ssr \<and> out_encoding obj \<noteq> None then [(''ssr'', msg_encoding_ignored)] else []))"
proof -
  let ?ct = "mimeType P (route r) @ '';charset=utf-8''"
  let ?h2 = "(''Content-Type'', ?ct)
     # (case out_encoding obj of None \<Rightarrow> [] | Some e \<Rightarrow> [(''X-Astro-Encoding'', encoding_name e)])"
  let ?bd = "fst (resolve_body P obj [])"
  let ?h3 = "?h2 @ (case ?bd of BodyBytes bs \<Rightarrow> [(''Content-Length'', toString (length bs))]
                | BodyString _ \<Rightarrow> [])"
  have rb: "resolve_body P obj ?h2 = (?bd, ?h3)"
    using base_headers_no_length [of ?ct "out_encoding obj"]
    by (subst resolve_body_split) (simp add: headers_set_fresh split: BodyInit.splits)
  show ?thesis
    unfolding callEndpoint_object_def
    using rb
    by (simp add: Let_def base_headers new_Response_200 has_Content_Type attach_eq warn_def)
qed

section \<open>Facts about \<^verbatim>\<open>callEndpoint\<close>\<close>

lemma callEndpoint_native:
  "callEndpoint_invoke P handler env ctx onRequest = Inr (NativeResponse r, context) \<Longrightarrow>
   callEndpoint P handler env ctx onRequest =
     Inr (r\<lparr>headers := headers r @ map (Pair ''Set-Cookie'') (cookies context)\<rparr>,
          if isEndpointSSR env ctx \<and> truthy (headers_get (headers r) ''X-Astro-Encoding'')
          then [(''ssr'', msg_ResponseWithEncoding_ignored)] else [])"
  by (simp add: callEndpoint_def callEndpoint_response_def attach_eq warn_def)

lemma callEndpoint_simple:
  "callEndpoint_invoke P handler env ctx onRequest = Inr (SimpleObject obj, context) \<Longrightarrow>
   callEndpoint P handler env ctx onRequest =
     callEndpoint_object P (isEndpointSSR env ctx) (ctx_route ctx) obj (cookies context)"
  by (simp add: callEndpoint_def)

lemma getSetCookie_attached:
  "headers_getSetCookie (h @ map (Pair ''Set-Cookie'') jar) = headers_getSetCookie h @ jar"
  by (simp add: headers_getSetCookie_def headers_values_append headers_values_cookies)

lemma getSetCookie_object_headers:
  "headers_getSetCookie
     ((''Content-Type'', ct)
      # (case enc of None \<Rightarrow> [] | Some e \<Rightarrow> [(''X-Astro-Encoding'', encoding_name e)])
      @ (case bd of BodyBytes bs \<Rightarrow> [(''Content-Length'', toString (length bs))]
         | BodyString _ \<Rightarrow> [])
      @ map (Pair ''Set-Cookie'') jar) = jar"
proof -
  have sym: "same_name a ''Set-Cookie'' = same_name ''Set-Cookie'' a" for a
    by (auto simp: same_name_def)
  show ?thesis
    by (simp add: headers_getSetCookie_def headers_values_Cons headers_values_append
          headers_values_cookies sym names_differ split: option.splits BodyInit.splits)
qed

lemma sample_invoke:
  "callEndpoint_invoke node_platform (sample_handler cs result) (sample_env ssr) (sample_ctx rt) None
     = Inr (result, (sample_context None)\<lparr>cookies := cs\<rparr>)"
  by (simp add: callEndpoint_invoke_def createAPIContext_def node_platform_def sample_env_def
        sample_ctx_def truthy_def new_URL_def sample_request_def renderEndpoint_def
        sample_handler_def sample_context_def new_AstroCookies_def)

lemma sample_invoke_middleware:
  "callEndpoint_invoke web_platform (sample_handler cs result) (sample_env ssr) (sample_ctx rt)
       (Some (sample_middleware ck))
     = Inr (result, (sample_context None)\<lparr>cookies := ck # cs\<rparr>)"
  by (simp add: callEndpoint_invoke_def createAPIContext_def web_platform_def sample_env_def
        sample_ctx_def truthy_def new_URL_def sample_request_def renderEndpoint_def
        sample_handler_def sample_context_def new_AstroCookies_def callMiddleware_def
        sample_middleware_def)

lemma resolve_body_fst:
  "fst (resolve_body P obj hs) =
     (case out_body obj of
        Uint8ArrayBody bs \<Rightarrow> BodyBytes bs
      | StringBody s \<Rightarrow>
          (case Buffer P of
             Some conv \<Rightarrow> BodyBytes (Buffer_from conv s (out_encoding obj))
           | None \<Rightarrow>
               if out_encoding obj = None \<or> out_encoding obj = Some Enc_utf8
                  \<or> out_encoding obj = Some Enc_utf_8
               then BodyBytes (TextEncoder_encode s) else BodyString s))"
  by (auto simp: resolve_body_def Let_def split: OutputBody.splits option.splits)

lemma resolve_body_ignores_headers:
  "fst (resolve_body P (obj\<lparr>out_headers := declared\<rparr>) hs) = fst (resolve_body P obj hs)"
  by (auto simp: resolve_body_def Let_def split: OutputBody.splits option.splits)

lemma object_headers_get:
  fixes ct enc bd jar
  defines "hs \<equiv> (''Content-Type'', ct)
      # (case enc of None \<Rightarrow> [] | Some e \<Rightarrow> [(''X-Astro-Encoding'', encoding_name e)])
      @ (case bd of BodyBytes bs \<Rightarrow> [(''Content-Length'', toString (length bs))]
         | BodyString _ \<Rightarrow> [])
      @ map (Pair ''Set-Cookie'') jar"
  shows "headers_get hs ''Content-Type'' = Some ct"
    and "headers_get hs ''X-Astro-Encoding'' = map_option encoding_name enc"
    and "headers_get hs ''Content-Length''
           = (case bd of BodyBytes bs \<Rightarrow> Some (toString (length bs)) | BodyString _ \<Rightarrow> None)"
  unfolding hs_def
  by (simp_all add: headers_get_def headers_values_Cons headers_values_append
        headers_values_cookies names_differ split: option.splits BodyInit.splits)

lemma hello_bytes: "TextEncoder_encode hello = [0x68, 0x65, 0x6C, 0x6C, 0x6F]"
  by (simp add: hello_def TextEncoder_encode_def utf8_bytes_def is_lead_def is_trail_def)

lemma hello_length: "toString (length (TextEncoder_encode hello)) = ''5''"
  by (simp add: hello_bytes toString.simps digit_char_def)

lemma callEndpoint_simple_Some:
  assumes "callEndpoint_invoke P handler env ctx onRequest = Inr (SimpleObject obj, context)"
      and "ctx_route ctx = Some rt"
  shows "callEndpoint P handler env ctx onRequest =
     Inr (\<lparr>status = 200, statusText = [],
           headers =
             (''Content-Type'', mimeType P (route rt) @ '';charset=utf-8'')
             # (case out_encoding obj of
                  None \<Rightarrow> [] | Some e \<Rightarrow> [(''X-Astro-Encoding'', encoding_name e)])
             @ (case fst (resolve_body P obj []) of
                  BodyBytes bs \<Rightarrow> [(''Content-Length'', toString (length bs))]
                | BodyString _ \<Rightarrow> [])
             @ map (Pair ''Set-Cookie'') (cookies context),
           body = Some (fst (resolve_body P obj []))\<rparr>,
          (''astro'', msg_simple_object (route rt))
          # (if isEndpointSSR env ctx \<and> out_headers obj \<noteq> None
             then [(''ssr'', msg_headers_unsupported)] else [])
          @ (if isEndpointSSR env ctx \<and> out_encoding obj \<noteq> None
             then [(''ssr'', msg_encoding_ignored)] else []))"
  unfolding callEndpoint_simple [OF assms(1)] assms(2) by (rule callEndpoint_object_Some)

lemma callEndpoint_simple_facts:
  assumes "callEndpoint_invoke P handler env ctx onRequest = Inr (SimpleObject obj, context)"
      and "ctx_route ctx = Some rt"
  obtains (simple) resp log where
      "callEndpoint P handler env ctx onRequest = Inr (resp, log)"
      "status resp = 200"
      "body resp = Some (fst (resolve_body P obj []))"
      "headers resp
         = (''Content-Type'', mimeType P (route rt) @ '';charset=utf-8'')
           # (case out_encoding obj of
                None \<Rightarrow> [] | Some e \<Rightarrow> [(''X-Astro-Encoding'', encoding_name e)])
           @ (case fst (resolve_body P obj []) of
                BodyBytes bs \<Rightarrow> [(''Content-Length'', toString (length bs))]
              | BodyString _ \<Rightarrow> [])
           @ map (Pair ''Set-Cookie'') (cookies context)"
      "log = (''astro'', msg_simple_object (route rt))
          # (if isEndpointSSR env ctx \<and> out_headers obj \<noteq> None
             then [(''ssr'', msg_headers_unsupported)] else [])
          @ (if isEndpointSSR env ctx \<and> out_encoding obj \<noteq> None
             then [(''ssr'', msg_encoding_ignored)] else [])"
      "headers_get (headers resp) ''Content-Type''
         = Some (mimeType P (route rt) @ '';charset=utf-8'')"
      "headers_get (headers resp) ''X-Astro-Encoding''
         = map_option encoding_name (out_encoding obj)"
      "headers_get (headers resp) ''Content-Length''
         = (case fst (resolve_body P obj []) of
              BodyBytes bs \<Rightarrow> Some (toString (length bs)) | BodyString _ \<Rightarrow> None)"
proof -
  define bd where "bd = fst (resolve_body P obj [])"
  define hs where "hs = (''Content-Type'', mimeType P (route rt) @ '';charset=utf-8'')
           # (case out_encoding obj of
                None \<Rightarrow> [] | Some e \<Rightarrow> [(''X-Astro-Encoding'', encoding_name e)])
           @ (case bd of
                BodyBytes bs \<Rightarrow> [(''Content-Length'', toString (length bs))]
              | BodyString _ \<Rightarrow> [])
           @ map (Pair ''Set-Cookie'') (cookies context)"
  define resp where "resp = \<lparr>status = 200, statusText = [], headers = hs, body = Some bd\<rparr>"
  define log where "log = (''astro'', msg_simple_object (route rt))
          # (if isEndpointSSR env ctx \<and> out_headers obj \<noteq> None
             then [(''ssr'', msg_headers_unsupported)] else [])
          @ (if isEndpointSSR env ctx \<and> out_encoding obj \<noteq> None
             then [(''ssr'', msg_encoding_ignored)] else [])"
  have ce: "callEndpoint P handler env ctx onRequest = Inr (resp, log)"
    unfolding resp_def log_def hs_def bd_def by (rule callEndpoint_simple_Some [OF assms])
  have f: "status resp = 200" "body resp = Some bd" "headers resp = hs"
    by (simp_all add: resp_def)
  have g: "headers_get (headers resp) ''Content-Type''
         = Some (mimeType P (route rt) @ '';charset=utf-8'')"
     "headers_get (headers resp) ''X-Astro-Encoding'' = map_option encoding_name (out_encoding obj)"
     "headers_get (headers resp) ''Content-Length''
         = (case bd of BodyBytes bs \<Rightarrow> Some (toString (length bs)) | BodyString _ \<Rightarrow> None)"
    unfolding f hs_def by (rule object_headers_get)+
  show thesis
    by (rule that [of resp log])
       (use ce f g in \<open>simp_all only: bd_def [symmetric] hs_def [symmetric] log_def [symmetric]\<close>)
qed

lemma mimeType_cases:
  "mimeType P rt
      = (case mime_getType P rt of
           None \<Rightarrow> ''text/plain'' | Some m \<Rightarrow> if m = [] then ''text/plain'' else m)"
  by (cases "mime_getType P rt") (simp_all add: mimeType_def truthy_def)

section \<open>Facts about the request context\<close>

lemma sample_createAPIContext:
  "createAPIContext node_platform (sample_payload name) = Inr (sample_context name)"
  by (simp add: createAPIContext_def node_platform_def sample_payload_def sample_context_def
        truthy_def new_URL_def sample_request_def new_AstroCookies_def)

lemma createAPIContext_fields:
  "createAPIContext P pl = Inr c \<Longrightarrow>
   request c = payload_request pl \<and> adapterName c = payload_adapterName pl \<and> cookies c = []"
  by (auto simp: createAPIContext_def new_AstroCookies_def split: sum.splits if_splits)

lemma sample_invoke_web:
  "callEndpoint_invoke web_platform (sample_handler cs result) (sample_env ssr) (sample_ctx rt) None
     = Inr (result, (sample_context None)\<lparr>cookies := cs\<rparr>)"
  by (simp add: callEndpoint_invoke_def createAPIContext_def web_platform_def sample_env_def
        sample_ctx_def truthy_def new_URL_def sample_request_def renderEndpoint_def
        sample_handler_def sample_context_def new_AstroCookies_def)

lemma sample_route: "ctx_route (sample_ctx rt) = rt"
  by (simp add: sample_ctx_def)

lemma toString_small:
  "toString (Suc (Suc (Suc 0))) = ''3''"
  "toString (Suc (Suc (Suc (Suc (Suc 0))))) = ''5''"
  by (simp_all add: toString.simps digit_char_def)


section \<open>Cookies are attached once\<close>

text \<open>
  Claim C1, as amended. Whenever the handler (with or without a middleware around it)
  has returned, \<^verbatim>\<open>callEndpoint\<close> attaches the entries of the context's cookie jar once,
  whichever branch made the response. When the raw result is a \<^verbatim>\<open>Response\<close>, the
  \<^verbatim>\<open>Set-Cookie\<close> headers of the final response are those the raw response already had,
  followed by the entries of the jar, each once. When the raw result is a simple object
  (and the route is defined), they are the entries of the jar and nothing else.
\<close>

theorem cookies_attached_once:
  assumes "callEndpoint_invoke P handler env ctx onRequest = Inr (result, context)"
  shows "(result = NativeResponse r \<longrightarrow>
           (\<exists>resp log. callEndpoint P handler env ctx onRequest = Inr (resp, log)
              \<and> headers_getSetCookie (headers resp)
                  = headers_getSetCookie (headers r) @ cookies context))
       \<and> (result = SimpleObject obj \<and> ctx_route ctx = Some rt \<longrightarrow>
           (\<exists>resp log. callEndpoint P handler env ctx onRequest = Inr (resp, log)
              \<and> headers_getSetCookie (headers resp) = cookies context))"
proof (intro conjI impI)
  assume "result = NativeResponse r"
  with assms show "\<exists>resp log. callEndpoint P handler env ctx onRequest = Inr (resp, log)
      \<and> headers_getSetCookie (headers resp) = headers_getSetCookie (headers r) @ cookies context"
    by (simp add: callEndpoint_native getSetCookie_attached)
next
  assume "result = SimpleObject obj \<and> ctx_route ctx = Some rt"
  with assms show "\<exists>resp log. callEndpoint P handler env ctx onRequest = Inr (resp, log)
      \<and> headers_getSetCookie (headers resp) = cookies context"
    by (simp add: callEndpoint_simple callEndpoint_object_Some getSetCookie_object_headers
          del: append.simps)
qed

theorem cookies_attached_once_witness:
  "callEndpoint_invoke web_platform (sample_handler [''a=1'', ''b=2''] (SimpleObject hello_object))
       (sample_env False) (sample_ctx (Some a_txt)) (Some (sample_middleware ''m=0''))
     = Inr (SimpleObject hello_object, (sample_context None)\<lparr>cookies := [''m=0'', ''a=1'', ''b=2'']\<rparr>)
   \<and> (\<exists>resp log.
         callEndpoint web_platform (sample_handler [''a=1'', ''b=2''] (SimpleObject hello_object))
           (sample_env False) (sample_ctx (Some a_txt)) (Some (sample_middleware ''m=0''))
           = Inr (resp, log)
         \<and> headers_getSetCookie (headers resp) = [''m=0'', ''a=1'', ''b=2''])
   \<and> callEndpoint_invoke node_platform (sample_handler [''a=1'', ''b=2''] (NativeResponse (ok_response [])))
       (sample_env True) (sample_ctx None) None
     = Inr (NativeResponse (ok_response []), (sample_context None)\<lparr>cookies := [''a=1'', ''b=2'']\<rparr>)
   \<and> (\<exists>resp log.
         callEndpoint node_platform (sample_handler [''a=1'', ''b=2''] (NativeResponse (ok_response [])))
           (sample_env True) (sample_ctx None) None
           = Inr (resp, log)
         \<and> headers_getSetCookie (headers resp) = [''a=1'', ''b=2''])"
proof -
  have i1: "callEndpoint_invoke web_platform
       (sample_handler [''a=1'', ''b=2''] (SimpleObject hello_object))
       (sample_env False) (sample_ctx (Some a_txt)) (Some (sample_middleware ''m=0''))
     = Inr (SimpleObject hello_object, (sample_context None)\<lparr>cookies := [''m=0'', ''a=1'', ''b=2'']\<rparr>)"
    by (rule sample_invoke_middleware)
  have i2: "callEndpoint_invoke node_platform
       (sample_handler [''a=1'', ''b=2''] (NativeResponse (ok_response [])))
       (sample_env True) (sample_ctx None) None
     = Inr (NativeResponse (ok_response []), (sample_context None)\<lparr>cookies := [''a=1'', ''b=2'']\<rparr>)"
    by (rule sample_invoke)
  have rt: "ctx_route (sample_ctx (Some a_txt)) = Some a_txt"
    by (simp add: sample_ctx_def)
  have none: "headers_getSetCookie (headers (ok_response [])) = []"
    by (simp add: ok_response_def headers_getSetCookie_def)
  from cookies_attached_once [OF i1, where obj = hello_object and rt = a_txt] rt
  have c1: "\<exists>resp log.
         callEndpoint web_platform (sample_handler [''a=1'', ''b=2''] (SimpleObject hello_object))
           (sample_env False) (sample_ctx (Some a_txt)) (Some (sample_middleware ''m=0''))
           = Inr (resp, log)
         \<and> headers_getSetCookie (headers resp) = [''m=0'', ''a=1'', ''b=2'']"
    by simp
  from cookies_attached_once [OF i2, where r = "ok_response []"] none
  have c2: "\<exists>resp log.
         callEndpoint node_platform (sample_handler [''a=1'', ''b=2''] (NativeResponse (ok_response [])))
           (sample_env True) (sample_ctx None) None
           = Inr (resp, log)
         \<and> headers_getSetCookie (headers resp) = [''a=1'', ''b=2'']"
    by simp
  from i1 c1 i2 c2 show ?thesis by blast
qed

text \<open>
  The claim as it was stated, that the \<^verbatim>\<open>Set-Cookie\<close> headers of the final response are
  exactly the entries of the jar, fails for a handler that returns a \<^verbatim>\<open>Response\<close> with a
  \<^verbatim>\<open>Set-Cookie\<close> header of its own and sets one cookie on the jar: the final response has
  two \<^verbatim>\<open>Set-Cookie\<close> headers, the jar one entry.
\<close>

theorem own_set_cookie_kept:
  "callEndpoint node_platform
       (sample_handler [''a=1''] (NativeResponse (ok_response [(''Set-Cookie'', ''own=1'')])))
       (sample_env False) (sample_ctx (Some a_txt)) None
     = Inr (ok_response [(''Set-Cookie'', ''own=1''), (''Set-Cookie'', ''a=1'')], [])
   \<and> cookies ((sample_context None)\<lparr>cookies := [''a=1'']\<rparr>) = [''a=1'']
   \<and> headers_getSetCookie [(''Set-Cookie'', ''own=1''), (''Set-Cookie'', ''a=1'')]
       = [''own=1'', ''a=1'']"
  by (subst callEndpoint_native [OF sample_invoke])
     (simp add: ok_response_def isEndpointSSR_def sample_env_def headers_getSetCookie_def
        headers_values_Cons)

section \<open>The body and its length\<close>

text \<open>
  Claim C2. For a simple object (the route being defined) the body and the header
  \<^verbatim>\<open>Content-Length\<close> of the final response follow this order: a \<^verbatim>\<open>Uint8Array\<close> body is used as
  it is, with its length; else, where \<^verbatim>\<open>Buffer\<close> exists, the string is converted by
  \<^verbatim>\<open>Buffer.from\<close> with the declared encoding (UTF-8 when none is declared), with the length
  of the result; else, for the encodings \<^verbatim>\<open>utf8\<close>, \<^verbatim>\<open>utf-8\<close> or none, the string is encoded by
  the \<^verbatim>\<open>TextEncoder\<close>, with the length of the result; else the string is passed on as it is
  and no \<^verbatim>\<open>Content-Length\<close> is set.
\<close>

theorem body_resolution:
  assumes "callEndpoint_invoke P handler env ctx onRequest = Inr (SimpleObject obj, context)"
      and "ctx_route ctx = Some rt"
  shows "\<exists>resp log. callEndpoint P handler env ctx onRequest = Inr (resp, log)
     \<and> (\<forall>bs. out_body obj = Uint8ArrayBody bs \<longrightarrow>
          body resp = Some (BodyBytes bs)
          \<and> headers_get (headers resp) ''Content-Length'' = Some (toString (length bs)))
     \<and> (\<forall>s conv. out_body obj = StringBody s \<and> Buffer P = Some conv \<longrightarrow>
          body resp = Some (BodyBytes (Buffer_from conv s (out_encoding obj)))
          \<and> headers_get (headers resp) ''Content-Length''
              = Some (toString (length (Buffer_from conv s (out_encoding obj))))
          \<and> (out_encoding obj = None \<longrightarrow>
               Buffer_from conv s (out_encoding obj) = TextEncoder_encode s))
     \<and> (\<forall>s. out_body obj = StringBody s \<and> Buffer P = None
            \<and> (out_encoding obj = None \<or> out_encoding obj = Some Enc_utf8
                \<or> out_encoding obj = Some Enc_utf_8) \<longrightarrow>
          body resp = Some (BodyBytes (TextEncoder_encode s))
          \<and> headers_get (headers resp) ''Content-Length''
              = Some (toString (length (TextEncoder_encode s))))
     \<and> (\<forall>s e. out_body obj = StringBody s \<and> Buffer P = None \<and> out_encoding obj = Some e
            \<and> e \<noteq> Enc_utf8 \<and> e \<noteq> Enc_utf_8 \<longrightarrow>
          body resp = Some (BodyString s)
          \<and> headers_get (headers resp) ''Content-Length'' = None)"
proof -
  define bd where "bd = fst (resolve_body P obj [])"
  from assms obtain resp log where ce: "callEndpoint P handler env ctx onRequest = Inr (resp, log)"
    and b: "body resp = Some bd"
    and cl: "headers_get (headers resp) ''Content-Length''
               = (case bd of BodyBytes bs \<Rightarrow> Some (toString (length bs)) | BodyString _ \<Rightarrow> None)"
    unfolding bd_def by (rule callEndpoint_simple_facts)
  have c1: "bd = BodyBytes bs" if "out_body obj = Uint8ArrayBody bs" for bs
    using that by (simp add: bd_def resolve_body_fst)
  have c2: "bd = BodyBytes (Buffer_from conv s (out_encoding obj))"
    if "out_body obj = StringBody s \<and> Buffer P = Some conv" for s conv
    using that by (simp add: bd_def resolve_body_fst)
  have c3: "bd = BodyBytes (TextEncoder_encode s)"
    if "out_body obj = StringBody s \<and> Buffer P = None
              \<and> (out_encoding obj = None \<or> out_encoding obj = Some Enc_utf8
                  \<or> out_encoding obj = Some Enc_utf_8)" for s
    using that by (simp add: bd_def resolve_body_fst)
  have c4: "bd = BodyString s"
    if "out_body obj = StringBody s \<and> Buffer P = None \<and> out_encoding obj = Some e
              \<and> e \<noteq> Enc_utf8 \<and> e \<noteq> Enc_utf_8" for s e
    using that by (simp add: bd_def resolve_body_fst)
  have dflt: "Buffer_from conv s None = TextEncoder_encode s" for conv s
    by (simp add: Buffer_from_def)
  show ?thesis
  proof (intro exI [of _ resp] exI [of _ log] conjI allI impI)
    show "callEndpoint P handler env ctx onRequest = Inr (resp, log)" by (rule ce)
  next
    fix bs assume a: "out_body obj = Uint8ArrayBody bs"
    show "body resp = Some (BodyBytes bs)" using c1 [OF a] b by simp
    show "headers_get (headers resp) ''Content-Length'' = Some (toString (length bs))"
      using c1 [OF a] cl by simp
  next
    fix s conv assume a: "out_body obj = StringBody s \<and> Buffer P = Some conv"
    show "body resp = Some (BodyBytes (Buffer_from conv s (out_encoding obj)))"
      using c2 [OF a] b by simp
    show "headers_get (headers resp) ''Content-Length''
              = Some (toString (length (Buffer_from conv s (out_encoding obj))))"
      using c2 [OF a] cl by simp
    show "Buffer_from conv s (out_encoding obj) = TextEncoder_encode s"
      if "out_encoding obj = None"
      using that by (simp add: dflt)
  next
    fix s assume a: "out_body obj = StringBody s \<and> Buffer P = None
            \<and> (out_encoding obj = None \<or> out_encoding obj = Some Enc_utf8
                \<or> out_encoding obj = Some Enc_utf_8)"
    show "body resp = Some (BodyBytes (TextEncoder_encode s))" using c3 [OF a] b by simp
    show "headers_get (headers resp) ''Content-Length''
              = Some (toString (length (TextEncoder_encode s)))"
      using c3 [OF a] cl by simp
  next
    fix s e assume a: "out_body obj = StringBody s \<and> Buffer P = None \<and> out_encoding obj = Some e
            \<and> e \<noteq> Enc_utf8 \<and> e \<noteq> Enc_utf_8"
    show "body resp = Some (BodyString s)" using c4 [OF a] b by simp
    show "headers_get (headers resp) ''Content-Length'' = None" using c4 [OF a] cl by simp
  qed
qed

theorem body_resolution_witness:
  "(\<exists>resp log.
      callEndpoint web_platform (sample_handler [] (SimpleObject latin1_object))
        (sample_env False) (sample_ctx (Some a_txt)) None = Inr (resp, log)
      \<and> body resp = Some (BodyString hello)
      \<and> headers_get (headers resp) ''Content-Length'' = None)
   \<and> (\<exists>resp log.
      callEndpoint node_platform (sample_handler [] (SimpleObject bytes_object))
        (sample_env False) (sample_ctx (Some a_txt)) None = Inr (resp, log)
      \<and> body resp = Some (BodyBytes [1, 2, 3])
      \<and> headers_get (headers resp) ''Content-Length'' = Some ''3'')
   \<and> (\<exists>resp log.
      callEndpoint node_platform (sample_handler [] (SimpleObject plain_object))
        (sample_env False) (sample_ctx (Some a_txt)) None = Inr (resp, log)
      \<and> body resp = Some (BodyBytes [0x68, 0x65, 0x6C, 0x6C, 0x6F])
      \<and> headers_get (headers resp) ''Content-Length'' = Some ''5'')
   \<and> (\<exists>resp log.
      callEndpoint web_platform (sample_handler [] (SimpleObject hello_object))
        (sample_env False) (sample_ctx (Some a_txt)) None = Inr (resp, log)
      \<and> body resp = Some (BodyBytes [0x68, 0x65, 0x6C, 0x6C, 0x6F])
      \<and> headers_get (headers resp) ''Content-Length'' = Some ''5'')"
proof (intro conjI)
  show "\<exists>resp log.
      callEndpoint web_platform (sample_handler [] (SimpleObject latin1_object))
        (sample_env False) (sample_ctx (Some a_txt)) None = Inr (resp, log)
      \<and> body resp = Some (BodyString hello)
      \<and> headers_get (headers resp) ''Content-Length'' = None"
    using body_resolution [OF sample_invoke_web sample_route,
            of "[]" latin1_object False a_txt]
    by (simp add: latin1_object_def web_platform_def)
  show "\<exists>resp log.
      callEndpoint node_platform (sample_handler [] (SimpleObject bytes_object))
        (sample_env False) (sample_ctx (Some a_txt)) None = Inr (resp, log)
      \<and> body resp = Some (BodyBytes [1, 2, 3])
      \<and> headers_get (headers resp) ''Content-Length'' = Some ''3''"
    using body_resolution [OF sample_invoke sample_route,
            of "[]" bytes_object False a_txt]
    by (simp add: bytes_object_def toString_small)
  show "\<exists>resp log.
      callEndpoint node_platform (sample_handler [] (SimpleObject plain_object))
        (sample_env False) (sample_ctx (Some a_txt)) None = Inr (resp, log)
      \<and> body resp = Some (BodyBytes [0x68, 0x65, 0x6C, 0x6C, 0x6F])
      \<and> headers_get (headers resp) ''Content-Length'' = Some ''5''"
    using body_resolution [OF sample_invoke sample_route,
            of "[]" plain_object False a_txt]
    by (simp add: plain_object_def node_platform_def Buffer_from_def hello_bytes toString_small)
  show "\<exists>resp log.
      callEndpoint web_platform (sample_handler [] (SimpleObject hello_object))
        (sample_env False) (sample_ctx (Some a_txt)) None = Inr (resp, log)
      \<and> body resp = Some (BodyBytes [0x68, 0x65, 0x6C, 0x6C, 0x6F])
      \<and> headers_get (headers resp) ''Content-Length'' = Some ''5''"
    using body_resolution [OF sample_invoke_web sample_route,
            of "[]" hello_object False a_txt]
    by (simp add: hello_object_def web_platform_def hello_bytes toString_small)
qed

section \<open>A response is passed through\<close>

text \<open>
  The claim C3 as it was stated, that in server-render mode a response that carries the
  header \<^verbatim>\<open>X-Astro-Encoding\<close> brings one warning, fails for a response that carries the
  header with an empty value: \<^verbatim>\<open>headers.get\<close> returns the empty string, which is falsy,
  and no warning is given.
\<close>

theorem empty_marker_no_warning:
  "isEndpointSSR (sample_env True) (sample_ctx (Some a_txt))
   \<and> headers_has (headers (ok_response [(''X-Astro-Encoding'', [])])) ''X-Astro-Encoding''
   \<and> callEndpoint node_platform
         (sample_handler [] (NativeResponse (ok_response [(''X-Astro-Encoding'', [])])))
         (sample_env True) (sample_ctx (Some a_txt)) None
       = Inr (ok_response [(''X-Astro-Encoding'', [])], [])"
proof -
  have "isEndpointSSR (sample_env True) (sample_ctx (Some a_txt))"
    by (simp add: isEndpointSSR_def sample_env_def sample_ctx_def a_txt_def)
  moreover have "headers_has (headers (ok_response [(''X-Astro-Encoding'', [])])) ''X-Astro-Encoding''"
    by (simp add: ok_response_def headers_has_def headers_values_Cons)
  moreover have "callEndpoint node_platform
         (sample_handler [] (NativeResponse (ok_response [(''X-Astro-Encoding'', [])])))
         (sample_env True) (sample_ctx (Some a_txt)) None
       = Inr (ok_response [(''X-Astro-Encoding'', [])], [])"
    by (subst callEndpoint_native [OF sample_invoke])
       (simp add: ok_response_def headers_get_def headers_values_Cons truthy_def)
  ultimately show ?thesis by simp
qed

text \<open>
  Claim C3, as amended. When the raw result is a \<^verbatim>\<open>Response\<close>, \<^verbatim>\<open>callEndpoint\<close> returns that
  response with the entries of the context's cookie jar appended to its headers as
  \<^verbatim>\<open>Set-Cookie\<close> headers, and with its status, status text, body and the headers it had
  unchanged. One warning is given when the request is in server-render mode and
  \<^verbatim>\<open>X-Astro-Encoding\<close> of the response has a value that is not empty; otherwise none.
\<close>

theorem native_response_kept:
  assumes "callEndpoint_invoke P handler env ctx onRequest = Inr (NativeResponse r, context)"
  shows "\<exists>resp log. callEndpoint P handler env ctx onRequest = Inr (resp, log)
     \<and> status resp = status r \<and> statusText resp = statusText r \<and> body resp = body r
     \<and> headers resp = headers r @ map (Pair ''Set-Cookie'') (cookies context)
     \<and> log = (if isEndpointSSR env ctx
                  \<and> (\<exists>v. headers_get (headers r) ''X-Astro-Encoding'' = Some v \<and> v \<noteq> [])
               then [(''ssr'', msg_ResponseWithEncoding_ignored)] else [])"
proof -
  have "truthy (headers_get (headers r) ''X-Astro-Encoding'')
      = (\<exists>v. headers_get (headers r) ''X-Astro-Encoding'' = Some v \<and> v \<noteq> [])"
    by (simp add: truthy_def split: option.splits)
  then show ?thesis
    by (simp add: callEndpoint_native [OF assms])
qed

theorem native_response_kept_witness:
  "callEndpoint_invoke node_platform
       (sample_handler [''a=1''] (NativeResponse (ok_response [(''X-Astro-Encoding'', ''utf8'')])))
       (sample_env True) (sample_ctx (Some a_txt)) None
     = Inr (NativeResponse (ok_response [(''X-Astro-Encoding'', ''utf8'')]),
            (sample_context None)\<lparr>cookies := [''a=1'']\<rparr>)
   \<and> (\<exists>resp log.
        callEndpoint node_platform
          (sample_handler [''a=1''] (NativeResponse (ok_response [(''X-Astro-Encoding'', ''utf8'')])))
          (sample_env True) (sample_ctx (Some a_txt)) None = Inr (resp, log)
        \<and> status resp = 200 \<and> body resp = None
        \<and> headers resp = [(''X-Astro-Encoding'', ''utf8''), (''Set-Cookie'', ''a=1'')]
        \<and> log = [(''ssr'', msg_ResponseWithEncoding_ignored)])"
proof -
  have i: "callEndpoint_invoke node_platform
       (sample_handler [''a=1''] (NativeResponse (ok_response [(''X-Astro-Encoding'', ''utf8'')])))
       (sample_env True) (sample_ctx (Some a_txt)) None
     = Inr (NativeResponse (ok_response [(''X-Astro-Encoding'', ''utf8'')]),
            (sample_context None)\<lparr>cookies := [''a=1'']\<rparr>)"
    by (rule sample_invoke)
  have s: "isEndpointSSR (sample_env True) (sample_ctx (Some a_txt))"
    by (simp add: isEndpointSSR_def sample_env_def sample_ctx_def a_txt_def)
  have m: "headers_get (headers (ok_response [(''X-Astro-Encoding'', ''utf8'')])) ''X-Astro-Encoding''
             = Some ''utf8''"
    by (simp add: ok_response_def headers_get_def headers_values_Cons)
  have f: "status (ok_response hs) = 200" "body (ok_response hs) = None"
     "headers (ok_response hs) = hs" "statusText (ok_response hs) = []" for hs
    by (simp_all add: ok_response_def)
  from native_response_kept [OF i] s m
  have "\<exists>resp log.
        callEndpoint node_platform
          (sample_handler [''a=1''] (NativeResponse (ok_response [(''X-Astro-Encoding'', ''utf8'')])))
          (sample_env True) (sample_ctx (Some a_txt)) None = Inr (resp, log)
        \<and> status resp = 200 \<and> body resp = None
        \<and> headers resp = [(''X-Astro-Encoding'', ''utf8''), (''Set-Cookie'', ''a=1'')]
        \<and> log = [(''ssr'', msg_ResponseWithEncoding_ignored)]"
    by (auto simp: f)
  with i show ?thesis by simp
qed

section \<open>The simple object: status, content type and marker\<close>

text \<open>
  Claim C4. For a simple object (the route being defined) the final response has the
  status 200 and the header \<^verbatim>\<open>Content-Type\<close> made of the type that \<^verbatim>\<open>mime.getType\<close> finds for
  the route, or \<^verbatim>\<open>text/plain\<close> when it finds none, followed by \<^verbatim>\<open>;charset=utf-8\<close>. An encoding
  that the object declares is copied into \<^verbatim>\<open>X-Astro-Encoding\<close>. For the body \<^verbatim>\<open>hello\<close> with
  the encoding \<^verbatim>\<open>utf8\<close> the body bytes are the UTF-8 bytes of \<^verbatim>\<open>hello\<close>, \<^verbatim>\<open>Content-Length\<close> is
  5 and the marker is \<^verbatim>\<open>utf8\<close>, on either platform.
\<close>

theorem content_type_and_marker:
  assumes "callEndpoint_invoke P handler env ctx onRequest = Inr (SimpleObject obj, context)"
      and "ctx_route ctx = Some rt"
  shows "\<exists>resp log. callEndpoint P handler env ctx onRequest = Inr (resp, log)
     \<and> status resp = 200
     \<and> headers_get (headers resp) ''Content-Type''
         = Some ((case mime_getType P (route rt) of
                    None \<Rightarrow> ''text/plain''
                  | Some m \<Rightarrow> if m = [] then ''text/plain'' else m) @ '';charset=utf-8'')
     \<and> (\<forall>e. out_encoding obj = Some e \<longrightarrow>
           headers_get (headers resp) ''X-Astro-Encoding'' = Some (encoding_name e))
     \<and> (out_body obj = StringBody hello \<and> out_encoding obj = Some Enc_utf8 \<longrightarrow>
           body resp = Some (BodyBytes [0x68, 0x65, 0x6C, 0x6C, 0x6F])
           \<and> headers_get (headers resp) ''Content-Length'' = Some ''5''
           \<and> headers_get (headers resp) ''X-Astro-Encoding'' = Some ''utf8'')"
proof -
  define bd where "bd = fst (resolve_body P obj [])"
  from assms obtain resp log where ce: "callEndpoint P handler env ctx onRequest = Inr (resp, log)"
    and st: "status resp = 200"
    and b: "body resp = Some bd"
    and ct: "headers_get (headers resp) ''Content-Type''
               = Some (mimeType P (route rt) @ '';charset=utf-8'')"
    and xe: "headers_get (headers resp) ''X-Astro-Encoding''
               = map_option encoding_name (out_encoding obj)"
    and cl: "headers_get (headers resp) ''Content-Length''
               = (case bd of BodyBytes bs \<Rightarrow> Some (toString (length bs)) | BodyString _ \<Rightarrow> None)"
    unfolding bd_def by (rule callEndpoint_simple_facts)
  have h: "bd = BodyBytes (TextEncoder_encode hello)"
    if "out_body obj = StringBody hello \<and> out_encoding obj = Some Enc_utf8"
    using that by (cases "Buffer P") (simp_all add: bd_def resolve_body_fst Buffer_from_def)
  show ?thesis
  proof (intro exI [of _ resp] exI [of _ log] conjI allI impI)
    show "callEndpoint P handler env ctx onRequest = Inr (resp, log)" by (rule ce)
    show "status resp = 200" by (rule st)
    show "headers_get (headers resp) ''Content-Type''
         = Some ((case mime_getType P (route rt) of
                    None \<Rightarrow> ''text/plain''
                  | Some m \<Rightarrow> if m = [] then ''text/plain'' else m) @ '';charset=utf-8'')"
      unfolding mimeType_cases [symmetric] by (rule ct)
  next
    fix e assume "out_encoding obj = Some e"
    then show "headers_get (headers resp) ''X-Astro-Encoding'' = Some (encoding_name e)"
      by (simp add: xe)
  next
    assume a: "out_body obj = StringBody hello \<and> out_encoding obj = Some Enc_utf8"
    show "body resp = Some (BodyBytes [0x68, 0x65, 0x6C, 0x6C, 0x6F])"
      using h [OF a] b by (simp add: hello_bytes)
    show "headers_get (headers resp) ''Content-Length'' = Some ''5''"
      using h [OF a] cl by (simp add: hello_length)
    show "headers_get (headers resp) ''X-Astro-Encoding'' = Some ''utf8''"
      using a by (simp add: xe)
  qed
qed

theorem content_type_and_marker_witness:
  "callEndpoint_invoke node_platform (sample_handler [] (SimpleObject hello_object))
       (sample_env False) (sample_ctx (Some a_txt)) None
     = Inr (SimpleObject hello_object, (sample_context None)\<lparr>cookies := []\<rparr>)
   \<and> ctx_route (sample_ctx (Some a_txt)) = Some a_txt
   \<and> (\<exists>resp log.
        callEndpoint node_platform (sample_handler [] (SimpleObject hello_object))
          (sample_env False) (sample_ctx (Some a_txt)) None = Inr (resp, log)
        \<and> status resp = 200
        \<and> headers_get (headers resp) ''Content-Type'' = Some ''text/plain;charset=utf-8''
        \<and> body resp = Some (BodyBytes [0x68, 0x65, 0x6C, 0x6C, 0x6F])
        \<and> headers_get (headers resp) ''Content-Length'' = Some ''5''
        \<and> headers_get (headers resp) ''X-Astro-Encoding'' = Some ''utf8'')"
proof -
  have m: "mime_getType node_platform (route a_txt) = Some ''text/plain''"
    by (simp add: node_platform_def a_txt_def sample_mime_def)
  have o: "out_body hello_object = StringBody hello" "out_encoding hello_object = Some Enc_utf8"
    by (simp_all add: hello_object_def)
  from content_type_and_marker [OF sample_invoke sample_route, of "[]" hello_object False a_txt]
  have "\<exists>resp log.
        callEndpoint node_platform (sample_handler [] (SimpleObject hello_object))
          (sample_env False) (sample_ctx (Some a_txt)) None = Inr (resp, log)
        \<and> status resp = 200
        \<and> headers_get (headers resp) ''Content-Type'' = Some ''text/plain;charset=utf-8''
        \<and> body resp = Some (BodyBytes [0x68, 0x65, 0x6C, 0x6C, 0x6F])
        \<and> headers_get (headers resp) ''Content-Length'' = Some ''5''
        \<and> headers_get (headers resp) ''X-Astro-Encoding'' = Some ''utf8''"
    unfolding m o by auto
  then show ?thesis
    by (simp add: sample_invoke sample_route)
qed

section \<open>The client address\<close>

text \<open>
  The claim C5 as it was stated, that a supplied adapter name gives
  \<^verbatim>\<open>ClientAddressNotAvailable\<close>, fails for the empty name: line 62 tests the truthiness of
  the name, the empty string is falsy and the error is \<^verbatim>\<open>StaticClientAddressNotAvailable\<close>.
\<close>

theorem empty_adapterName_is_static:
  "createAPIContext node_platform (sample_payload (Some [])) = Inr (sample_context (Some []))
   \<and> payload_adapterName (sample_payload (Some [])) = Some []
   \<and> req_clientAddress (payload_request (sample_payload (Some []))) = None
   \<and> clientAddress (sample_context (Some [])) = Inl (AstroError StaticClientAddressNotAvailable)"
  by (simp add: sample_createAPIContext)
     (simp add: sample_payload_def sample_request_def sample_context_def clientAddress_def truthy_def)

text \<open>
  Claim C5, as amended. On a context made by \<^verbatim>\<open>createAPIContext\<close>, when the request carries
  no client address, reading \<^verbatim>\<open>clientAddress\<close> fails: with \<^verbatim>\<open>ClientAddressNotAvailable\<close>, whose
  message contains the adapter name, when an adapter name that is not empty was supplied,
  and with \<^verbatim>\<open>StaticClientAddressNotAvailable\<close> when no name or the empty name was supplied.
  When the request carries an address, that value is returned as it is.
\<close>

theorem clientAddress_guard:
  assumes "createAPIContext P pl = Inr c"
  shows "(req_clientAddress (payload_request pl) = None \<and> payload_adapterName pl = Some name
            \<and> name \<noteq> [] \<longrightarrow>
          clientAddress c
            = Inl (AstroError (ClientAddressNotAvailable (ClientAddressNotAvailable_message name)))
          \<and> sublist name (ClientAddressNotAvailable_message name))
       \<and> (req_clientAddress (payload_request pl) = None
            \<and> (payload_adapterName pl = None \<or> payload_adapterName pl = Some []) \<longrightarrow>
          clientAddress c = Inl (AstroError StaticClientAddressNotAvailable))
       \<and> (req_clientAddress (payload_request pl) = Some v \<longrightarrow> clientAddress c = Inr v)"
proof -
  have "sublist name (ClientAddressNotAvailable_message name)"
    unfolding ClientAddressNotAvailable_message_def by (rule sublist_appendI)
  with createAPIContext_fields [OF assms] show ?thesis
    by (auto simp: clientAddress_def truthy_def)
qed

theorem clientAddress_guard_witness:
  "createAPIContext node_platform (sample_payload (Some ''@astrojs/node''))
     = Inr (sample_context (Some ''@astrojs/node''))
   \<and> req_clientAddress (payload_request (sample_payload (Some ''@astrojs/node''))) = None
   \<and> clientAddress (sample_context (Some ''@astrojs/node''))
       = Inl (AstroError (ClientAddressNotAvailable
                ''Astro.clientAddress is not available in the @astrojs/node adapter.''))
   \<and> sublist ''@astrojs/node'' ''Astro.clientAddress is not available in the @astrojs/node adapter.''
   \<and> clientAddress (sample_context None) = Inl (AstroError StaticClientAddressNotAvailable)
   \<and> createAPIContext node_platform ((sample_payload None)\<lparr>payload_request := addressed_request\<rparr>)
       = Inr ((sample_context None)\<lparr>request := addressed_request\<rparr>)
   \<and> clientAddress ((sample_context None)\<lparr>request := addressed_request\<rparr>)
       = Inr (JString ''203.0.113.7'')"
proof -
  have none: "req_clientAddress (payload_request (sample_payload n)) = None" for n
    by (simp add: sample_payload_def sample_request_def)
  have name: "payload_adapterName (sample_payload n) = n" for n
    by (simp add: sample_payload_def)
  have addressed: "createAPIContext node_platform
         ((sample_payload None)\<lparr>payload_request := addressed_request\<rparr>)
       = Inr ((sample_context None)\<lparr>request := addressed_request\<rparr>)"
    by (simp add: createAPIContext_def node_platform_def sample_payload_def sample_context_def
          truthy_def new_URL_def sample_request_def new_AstroCookies_def addressed_request_def)
  have there: "req_clientAddress (payload_request
         ((sample_payload None)\<lparr>payload_request := addressed_request\<rparr>))
       = Some (JString ''203.0.113.7'')"
    by (simp add: addressed_request_def)
  from clientAddress_guard [OF sample_createAPIContext, where name = "''@astrojs/node''"]
       clientAddress_guard [OF sample_createAPIContext [where name = None]]
       clientAddress_guard [OF addressed, where v = "JString ''203.0.113.7''"]
       none name there sample_createAPIContext addressed
  show ?thesis
    by (simp add: ClientAddressNotAvailable_message_def)
qed

section \<open>The property \<^verbatim>\<open>locals\<close>\<close>

text \<open>
  The claim C6 as it was stated, that assigning a value that is not an object fails and
  that every object makes the round trip, fails at two values. \<^verbatim>\<open>null\<close> is not an object,
  yet \<^verbatim>\<open>typeof null\<close> is \<^verbatim>\<open>'object'\<close> and the assignment is accepted. A function is an object,
  yet its \<^verbatim>\<open>typeof\<close> is \<^verbatim>\<open>'function'\<close> and the assignment fails.
\<close>

theorem locals_null_and_function:
  "\<not> is_object JNull
   \<and> locals_set (sample_context None) JNull
       = Inr ((sample_context None)\<lparr>request := sample_request\<lparr>req_locals := Some JNull\<rparr>\<rparr>)
   \<and> is_object (JFunction 0)
   \<and> locals_set (sample_context None) (JFunction 0) = Inl (AstroError LocalsNotAnObject)"
  by (simp add: locals_set_def sample_context_def)

text \<open>
  Claim C6, as amended. Assigning to \<^verbatim>\<open>locals\<close> a value whose \<^verbatim>\<open>typeof\<close> is not \<^verbatim>\<open>'object'\<close>
  (\<^verbatim>\<open>undefined\<close>, a boolean, a number, a bigint, a string, a symbol, a function) fails with
  \<^verbatim>\<open>LocalsNotAnObject\<close>. Assigning an object that is not a function succeeds, changes
  nothing of the context but the slot kept on the request object, and a read of \<^verbatim>\<open>locals\<close>
  after it returns the same object.
\<close>

theorem locals_guard:
  "(typeof v \<noteq> ''object'' \<longrightarrow> locals_set c v = Inl (AstroError LocalsNotAnObject))
   \<and> locals_set c (JObject i) = Inr (c\<lparr>request := (request c)\<lparr>req_locals := Some (JObject i)\<rparr>\<rparr>)
   \<and> locals_get (c\<lparr>request := (request c)\<lparr>req_locals := Some (JObject i)\<rparr>\<rparr>) = JObject i"
  by (simp add: locals_set_def locals_get_def)

theorem locals_guard_witness:
  "typeof (JString ''x'') \<noteq> ''object''
   \<and> locals_set (sample_context None) (JString ''x'') = Inl (AstroError LocalsNotAnObject)
   \<and> typeof (JNumber 7) \<noteq> ''object''
   \<and> locals_set (sample_context None) (JNumber 7) = Inl (AstroError LocalsNotAnObject)
   \<and> locals_get (sample_context None) = JUndefined
   \<and> locals_set (sample_context None) (JObject 1)
       = Inr ((sample_context None)\<lparr>request := sample_request\<lparr>req_locals := Some (JObject 1)\<rparr>\<rparr>)
   \<and> locals_get ((sample_context None)\<lparr>request := sample_request\<lparr>req_locals := Some (JObject 1)\<rparr>\<rparr>)
       = JObject 1"
  using locals_guard [of "JString ''x''" "sample_context None" 1]
        locals_guard [of "JNumber 7" "sample_context None" 1]
  by (simp add: locals_get_def sample_context_def sample_request_def)

section \<open>Redirects\<close>

text \<open>
  The claim C7 as it was stated, that \<^verbatim>\<open>redirect(p, s)\<close> has the status \<open>s\<close> for every explicit
  status and the header \<^verbatim>\<open>Location\<close> equal to \<open>p\<close> for every path, fails at the status 0,
  which \<^verbatim>\<open>status || 302\<close> replaces by 302, at the status 100, which the constructor of
  \<^verbatim>\<open>Response\<close> refuses, at the status 65838, which the constructor takes modulo 65536, at
  a path with blanks around it, which are trimmed, and at a path with a line feed inside
  it, which is refused.
\<close>

theorem redirect_edge_cases:
  "redirect ''/y'' (Some 0)
     = Inr \<lparr>status = 302, statusText = [], headers = [(''Location'', ''/y'')], body = None\<rparr>
   \<and> redirect ''/y'' (Some 100) = Inl (RangeError ''status'')
   \<and> redirect ''/y'' (Some 65838)
     = Inr \<lparr>status = 302, statusText = [], headers = [(''Location'', ''/y'')], body = None\<rparr>
   \<and> redirect '' /x '' None
     = Inr \<lparr>status = 302, statusText = [], headers = [(''Location'', ''/x'')], body = None\<rparr>
   \<and> redirect (''/a'' @ [CHR 0x0A] @ ''b'') None = Inl (TypeError ''Invalid header'')"
  by (simp add: redirect_def new_Response_def init_header_list_def Headers_append_def
        headers_append_def Location_is_header_name is_reason_phrase_def normalize_value_def
        is_http_whitespace_def is_header_value_def)

text \<open>
  Claim C7, as amended. For every path \<open>p\<close> that is a header value once the whitespace at
  its two ends is trimmed, \<^verbatim>\<open>redirect(p)\<close> is a response with the status 302, the header
  \<^verbatim>\<open>Location\<close> equal to the trimmed \<open>p\<close> and no body, and for every explicit status \<open>s\<close> that
  is a whole number from 200 to 599 \<^verbatim>\<open>redirect(p, s)\<close> is the same response with the status
  \<open>s\<close>. A path that is a header value as it stands is its own trimmed path, so \<^verbatim>\<open>Location\<close>
  is equal to \<open>p\<close> then. The status 0 counts as no status. The function takes the path and the status only and
  returns a new response: it does not touch the context.
\<close>

theorem redirect_response:
  "(is_header_value (normalize_value p) \<longrightarrow>
      redirect p None
        = Inr \<lparr>status = 302, statusText = [], headers = [(''Location'', normalize_value p)],
               body = None\<rparr>
      \<and> headers_get [(''Location'', normalize_value p)] ''Location'' = Some (normalize_value p)
      \<and> (200 \<le> s \<and> s \<le> 599 \<longrightarrow>
           redirect p (Some s)
             = Inr \<lparr>status = s, statusText = [], headers = [(''Location'', normalize_value p)],
                    body = None\<rparr>))
   \<and> (is_header_value p \<longrightarrow> normalize_value p = p)
   \<and> redirect p (Some 0) = redirect p None"
proof (intro conjI impI)
  assume v: "is_header_value (normalize_value p)"
  show "redirect p None
        = Inr \<lparr>status = 302, statusText = [], headers = [(''Location'', normalize_value p)],
               body = None\<rparr>"
    using v by (simp add: redirect_def new_Response_redirect)
  show "headers_get [(''Location'', normalize_value p)] ''Location'' = Some (normalize_value p)"
    by (simp add: headers_get_def headers_values_Cons)
  show "redirect p (Some s)
             = Inr \<lparr>status = s, statusText = [], headers = [(''Location'', normalize_value p)],
                    body = None\<rparr>"
    if "200 \<le> s \<and> s \<le> 599"
    using that v by (simp add: redirect_def new_Response_redirect)
next
  assume "is_header_value p"
  then show "normalize_value p = p" by (rule normalize_value_id)
next
  show "redirect p (Some 0) = redirect p None"
    by (simp add: redirect_def)
qed

theorem redirect_response_witness:
  "is_header_value (normalize_value ''/y'') \<and> (200::nat) \<le> 301 \<and> (301::nat) \<le> 599
   \<and> redirect ''/y'' (Some 301)
       = Inr \<lparr>status = 301, statusText = [], headers = [(''Location'', ''/y'')], body = None\<rparr>
   \<and> is_header_value ''/x''
   \<and> redirect ''/x'' None
       = Inr \<lparr>status = 302, statusText = [], headers = [(''Location'', ''/x'')], body = None\<rparr>
   \<and> headers_get [(''Location'', ''/x'')] ''Location'' = Some ''/x''"
proof -
  have v: "is_header_value ''/x''" "is_header_value ''/y''"
    by (simp_all add: is_header_value_def)
  have n: "normalize_value ''/x'' = ''/x''" "normalize_value ''/y'' = ''/y''"
    by (simp_all add: normalize_value_def is_http_whitespace_def)
  from redirect_response [of "''/y''" 301] redirect_response [of "''/x''" 301] v n
  show ?thesis by simp
qed

section \<open>The class \<^verbatim>\<open>ResponseWithEncoding\<close>\<close>

text \<open>
  Claim C8. Constructing a \<^verbatim>\<open>ResponseWithEncoding\<close> from a body, an init and an encoding
  fails exactly as \<^verbatim>\<open>new Response\<close> fails on that body and init, and otherwise gives the
  response that \<^verbatim>\<open>new Response\<close> gives with one change: its headers have
  \<^verbatim>\<open>X-Astro-Encoding\<close> set to the encoding. The status, the status text, the body and the
  values of every other header are the same; where the headers had no \<^verbatim>\<open>X-Astro-Encoding\<close>
  the new header is appended to them.
\<close>

theorem ResponseWithEncoding_headers:
  "(new_Response b init = Inl e \<longrightarrow> ResponseWithEncoding b init enc = Inl e)
   \<and> (new_Response b init = Inr r \<longrightarrow>
        (\<exists>r'. ResponseWithEncoding b init enc = Inr r'
           \<and> status r' = status r \<and> statusText r' = statusText r \<and> body r' = body r
           \<and> headers_get (headers r') ''X-Astro-Encoding'' = Some (encoding_name enc)
           \<and> (\<forall>n. \<not> same_name n ''X-Astro-Encoding'' \<longrightarrow>
                 headers_values (headers r') n = headers_values (headers r) n)
           \<and> (\<not> headers_has (headers r) ''X-Astro-Encoding'' \<longrightarrow>
                 headers r' = headers r @ [(''X-Astro-Encoding'', encoding_name enc)])))"
  by (simp add: ResponseWithEncoding_def headers_get_set headers_values_set headers_set_fresh)

theorem ResponseWithEncoding_headers_witness:
  "new_Response (Some (BodyString hello))
       \<lparr>init_status = Some 201, init_statusText = None, init_headers = Some (FromRecord [(''X-Custom'', ''1'')])\<rparr>
     = Inr \<lparr>status = 201, statusText = [],
            headers = [(''X-Custom'', ''1''), (''Content-Type'', ''text/plain;charset=UTF-8'')],
            body = Some (BodyString hello)\<rparr>
   \<and> ResponseWithEncoding (Some (BodyString hello))
       \<lparr>init_status = Some 201, init_statusText = None, init_headers = Some (FromRecord [(''X-Custom'', ''1'')])\<rparr>
       Enc_latin1
     = Inr \<lparr>status = 201, statusText = [],
            headers = [(''X-Custom'', ''1''), (''Content-Type'', ''text/plain;charset=UTF-8''),
                       (''X-Astro-Encoding'', ''latin1'')],
            body = Some (BodyString hello)\<rparr>
   \<and> new_Response None \<lparr>init_status = Some 99, init_statusText = None, init_headers = None\<rparr>
     = Inl (RangeError ''status'')
   \<and> ResponseWithEncoding None
       \<lparr>init_status = Some 99, init_statusText = None, init_headers = None\<rparr> Enc_utf8
     = Inl (RangeError ''status'')"
proof -
  have n: "new_Response (Some (BodyString hello))
       \<lparr>init_status = Some 201, init_statusText = None, init_headers = Some (FromRecord [(''X-Custom'', ''1'')])\<rparr>
     = Inr \<lparr>status = 201, statusText = [],
            headers = [(''X-Custom'', ''1''), (''Content-Type'', ''text/plain;charset=UTF-8'')],
            body = Some (BodyString hello)\<rparr>"
    by (simp add: new_Response_def init_header_list_def Headers_append_def is_header_name_def
          token_chars_def normalize_value_def is_http_whitespace_def is_header_value_def
          is_reason_phrase_def null_body_status_def headers_has_def
          headers_values_Cons headers_append_def same_name_def ascii_lower_def)
  have x: "\<not> headers_has [(''X-Custom'', ''1''), (''Content-Type'', ''text/plain;charset=UTF-8'')]
             ''X-Astro-Encoding''"
    by (simp add: headers_has_def headers_values_Cons same_name_def ascii_lower_def)
  have e: "new_Response None \<lparr>init_status = Some 99, init_statusText = None, init_headers = None\<rparr>
     = Inl (RangeError ''status'')"
    by (simp add: new_Response_def)
  from ResponseWithEncoding_headers
         [of "Some (BodyString hello)"
             "\<lparr>init_status = Some 201, init_statusText = None, init_headers = Some (FromRecord [(''X-Custom'', ''1'')])\<rparr>"
             "RangeError ''status''" Enc_latin1
             "\<lparr>status = 201, statusText = [],
               headers = [(''X-Custom'', ''1''), (''Content-Type'', ''text/plain;charset=UTF-8'')],
               body = Some (BodyString hello)\<rparr>"]
       ResponseWithEncoding_headers
         [of None "\<lparr>init_status = Some 99, init_statusText = None, init_headers = None\<rparr>"
             "RangeError ''status''" Enc_utf8]
       n x e
  show ?thesis
    by (auto simp: Response.equality)
qed

section \<open>Headers declared by a simple object\<close>

text \<open>
  Claim C9. For a simple object (the route being defined) the headers of the final
  response are \<^verbatim>\<open>Content-Type\<close>, then \<^verbatim>\<open>X-Astro-Encoding\<close> when an encoding is declared, then
  \<^verbatim>\<open>Content-Length\<close> when the body was turned into bytes, then the cookies of the jar, and
  nothing else. A property \<^verbatim>\<open>headers\<close> of the object never reaches the response: a handler
  whose object differs in that property only gets the same response. Outside server-render
  mode the only warning is the deprecation warning, so none is given about the headers.
\<close>

theorem declared_headers_discarded:
  assumes "callEndpoint_invoke P handler env ctx onRequest = Inr (SimpleObject obj, context)"
      and "callEndpoint_invoke P handler' env ctx onRequest'
             = Inr (SimpleObject (obj\<lparr>out_headers := declared\<rparr>), context)"
      and "ctx_route ctx = Some rt"
  shows "\<exists>resp log. callEndpoint P handler env ctx onRequest = Inr (resp, log)
     \<and> headers resp
         = (''Content-Type'', mimeType P (route rt) @ '';charset=utf-8'')
           # (case out_encoding obj of
                None \<Rightarrow> [] | Some e \<Rightarrow> [(''X-Astro-Encoding'', encoding_name e)])
           @ (case body resp of
                Some (BodyBytes bs) \<Rightarrow> [(''Content-Length'', toString (length bs))]
              | _ \<Rightarrow> [])
           @ map (Pair ''Set-Cookie'') (cookies context)
     \<and> (\<exists>log'. callEndpoint P handler' env ctx onRequest' = Inr (resp, log'))
     \<and> (\<not> isEndpointSSR env ctx \<longrightarrow> log = [(''astro'', msg_simple_object (route rt))])"
proof -
  define bd where "bd = fst (resolve_body P obj [])"
  define hs where "hs = (''Content-Type'', mimeType P (route rt) @ '';charset=utf-8'')
           # (case out_encoding obj of
                None \<Rightarrow> [] | Some e \<Rightarrow> [(''X-Astro-Encoding'', encoding_name e)])
           @ (case bd of
                BodyBytes bs \<Rightarrow> [(''Content-Length'', toString (length bs))]
              | BodyString _ \<Rightarrow> [])
           @ map (Pair ''Set-Cookie'') (cookies context)"
  define resp where "resp = \<lparr>status = 200, statusText = [], headers = hs, body = Some bd\<rparr>"
  have same: "fst (resolve_body P (obj\<lparr>out_headers := declared\<rparr>) []) = bd"
    by (simp add: bd_def resolve_body_ignores_headers)
  have enc: "out_encoding (obj\<lparr>out_headers := declared\<rparr>) = out_encoding obj"
    by simp
  obtain log where ce: "callEndpoint P handler env ctx onRequest = Inr (resp, log)"
    and lg: "\<not> isEndpointSSR env ctx \<Longrightarrow> log = [(''astro'', msg_simple_object (route rt))]"
    unfolding resp_def hs_def bd_def
    by (simp add: callEndpoint_simple_Some [OF assms(1) assms(3)])
  obtain log' where ce': "callEndpoint P handler' env ctx onRequest' = Inr (resp, log')"
    unfolding callEndpoint_simple_Some [OF assms(2) assms(3)] same enc
    unfolding resp_def hs_def by blast
  have hd: "headers resp
         = (''Content-Type'', mimeType P (route rt) @ '';charset=utf-8'')
           # (case out_encoding obj of
                None \<Rightarrow> [] | Some e \<Rightarrow> [(''X-Astro-Encoding'', encoding_name e)])
           @ (case body resp of
                Some (BodyBytes bs) \<Rightarrow> [(''Content-Length'', toString (length bs))]
              | _ \<Rightarrow> [])
           @ map (Pair ''Set-Cookie'') (cookies context)"
    by (cases bd) (simp_all add: resp_def hs_def)
  from ce ce' hd lg show ?thesis by blast
qed

theorem declared_headers_discarded_witness:
  "callEndpoint_invoke node_platform (sample_handler [''a=1''] (SimpleObject hello_object))
       (sample_env False) (sample_ctx (Some a_txt)) None
     = Inr (SimpleObject hello_object, (sample_context None)\<lparr>cookies := [''a=1'']\<rparr>)
   \<and> callEndpoint_invoke node_platform
       (sample_handler [''a=1''] (SimpleObject (hello_object\<lparr>out_headers := Some [(''X-Custom'', ''1'')]\<rparr>)))
       (sample_env False) (sample_ctx (Some a_txt)) None
     = Inr (SimpleObject (hello_object\<lparr>out_headers := Some [(''X-Custom'', ''1'')]\<rparr>),
            (sample_context None)\<lparr>cookies := [''a=1'']\<rparr>)
   \<and> \<not> isEndpointSSR (sample_env False) (sample_ctx (Some a_txt))
   \<and> (\<exists>resp log.
        callEndpoint node_platform (sample_handler [''a=1''] (SimpleObject hello_object))
          (sample_env False) (sample_ctx (Some a_txt)) None = Inr (resp, log)
        \<and> (\<exists>log'. callEndpoint node_platform
              (sample_handler [''a=1'']
                 (SimpleObject (hello_object\<lparr>out_headers := Some [(''X-Custom'', ''1'')]\<rparr>)))
              (sample_env False) (sample_ctx (Some a_txt)) None = Inr (resp, log'))
        \<and> log = [(''astro'', msg_simple_object ''/a.txt'')])"
proof -
  have s: "\<not> isEndpointSSR (sample_env False) (sample_ctx (Some a_txt))"
    by (simp add: isEndpointSSR_def sample_env_def)
  have r: "route a_txt = ''/a.txt''"
    by (simp add: a_txt_def)
  from declared_headers_discarded
         [OF sample_invoke sample_invoke sample_route,
          of "[''a=1'']" hello_object False a_txt "Some [(''X-Custom'', ''1'')]"] s r
  have "\<exists>resp log.
        callEndpoint node_platform (sample_handler [''a=1''] (SimpleObject hello_object))
          (sample_env False) (sample_ctx (Some a_txt)) None = Inr (resp, log)
        \<and> (\<exists>log'. callEndpoint node_platform
              (sample_handler [''a=1'']
                 (SimpleObject (hello_object\<lparr>out_headers := Some [(''X-Custom'', ''1'')]\<rparr>)))
              (sample_env False) (sample_ctx (Some a_txt)) None = Inr (resp, log'))
        \<and> log = [(''astro'', msg_simple_object ''/a.txt'')]"
    by auto
  with s show ?thesis
    by (simp add: sample_invoke)
qed

section \<open>The route is a precondition of the simple-object branch\<close>

text \<open>
  Claim C10. Whenever the handler has returned: with no route in the render context the
  flag \<^verbatim>\<open>isEndpointSSR\<close> is just \<^verbatim>\<open>env.ssr\<close> and a \<^verbatim>\<open>Response\<close> is still returned, but a simple
  object makes \<^verbatim>\<open>callEndpoint\<close> fail with a \<^verbatim>\<open>TypeError\<close>, since \<^verbatim>\<open>ctx.route.route\<close> is read
  without a guard. With a route in the render context a simple object always gives a
  response; the route identifier is in the first warning and decides the content type.
\<close>

theorem route_precondition:
  assumes "callEndpoint_invoke P handler env ctx onRequest = Inr (result, context)"
  shows "(ctx_route ctx = None \<longrightarrow> isEndpointSSR env ctx = env_ssr env)
     \<and> (ctx_route ctx = None \<and> result = NativeResponse r \<longrightarrow>
          (\<exists>resp log. callEndpoint P handler env ctx onRequest = Inr (resp, log)))
     \<and> (ctx_route ctx = None \<and> result = SimpleObject obj \<longrightarrow>
          (\<exists>m. callEndpoint P handler env ctx onRequest = Inl (TypeError m)))
     \<and> (ctx_route ctx = Some rt \<and> result = SimpleObject obj \<longrightarrow>
          (\<exists>resp log. callEndpoint P handler env ctx onRequest = Inr (resp, log)
             \<and> hd log = (''astro'', msg_simple_object (route rt))
             \<and> headers_get (headers resp) ''Content-Type''
                 = Some (mimeType P (route rt) @ '';charset=utf-8'')))"
proof (intro conjI impI)
  assume "ctx_route ctx = None"
  then show "isEndpointSSR env ctx = env_ssr env"
    by (simp add: isEndpointSSR_def)
next
  assume "ctx_route ctx = None \<and> result = NativeResponse r"
  with assms show "\<exists>resp log. callEndpoint P handler env ctx onRequest = Inr (resp, log)"
    by (simp add: callEndpoint_native)
next
  assume "ctx_route ctx = None \<and> result = SimpleObject obj"
  with assms show "\<exists>m. callEndpoint P handler env ctx onRequest = Inl (TypeError m)"
    by (simp add: callEndpoint_simple callEndpoint_object_def)
next
  assume a: "ctx_route ctx = Some rt \<and> result = SimpleObject obj"
  with assms have i: "callEndpoint_invoke P handler env ctx onRequest = Inr (SimpleObject obj, context)"
    by simp
  from a have r: "ctx_route ctx = Some rt" by simp
  from i r obtain resp log where ce: "callEndpoint P handler env ctx onRequest = Inr (resp, log)"
    and lg: "log = (''astro'', msg_simple_object (route rt))
          # (if isEndpointSSR env ctx \<and> out_headers obj \<noteq> None
             then [(''ssr'', msg_headers_unsupported)] else [])
          @ (if isEndpointSSR env ctx \<and> out_encoding obj \<noteq> None
             then [(''ssr'', msg_encoding_ignored)] else [])"
    and ct: "headers_get (headers resp) ''Content-Type''
               = Some (mimeType P (route rt) @ '';charset=utf-8'')"
    by (rule callEndpoint_simple_facts)
  have "hd log = (''astro'', msg_simple_object (route rt))"
    by (simp add: lg)
  with ce ct
  show "\<exists>resp log. callEndpoint P handler env ctx onRequest = Inr (resp, log)
             \<and> hd log = (''astro'', msg_simple_object (route rt))
             \<and> headers_get (headers resp) ''Content-Type''
                 = Some (mimeType P (route rt) @ '';charset=utf-8'')"
    by blast
qed

theorem route_precondition_witness:
  "callEndpoint_invoke node_platform (sample_handler [] (SimpleObject hello_object))
       (sample_env True) (sample_ctx None) None
     = Inr (SimpleObject hello_object, (sample_context None)\<lparr>cookies := []\<rparr>)
   \<and> isEndpointSSR (sample_env True) (sample_ctx None)
   \<and> (\<exists>m. callEndpoint node_platform (sample_handler [] (SimpleObject hello_object))
          (sample_env True) (sample_ctx None) None = Inl (TypeError m))
   \<and> (\<exists>resp log. callEndpoint node_platform (sample_handler [] (NativeResponse (ok_response [])))
          (sample_env True) (sample_ctx None) None = Inr (resp, log))
   \<and> (\<exists>resp log. callEndpoint node_platform (sample_handler [] (SimpleObject hello_object))
          (sample_env True) (sample_ctx (Some a_txt)) None = Inr (resp, log)
        \<and> hd log = (''astro'', msg_simple_object ''/a.txt'')
        \<and> headers_get (headers resp) ''Content-Type'' = Some ''text/plain;charset=utf-8'')"
proof -
  have e: "env_ssr (sample_env True)"
    by (simp add: sample_env_def)
  have m: "mimeType node_platform (route a_txt) = ''text/plain''" "route a_txt = ''/a.txt''"
    by (simp_all add: mimeType_def truthy_def node_platform_def a_txt_def sample_mime_def)
  from route_precondition
         [OF sample_invoke [where cs = "[]" and result = "SimpleObject hello_object"
                              and ssr = True and rt = None],
          where obj = hello_object]
       route_precondition
         [OF sample_invoke [where cs = "[]" and result = "NativeResponse (ok_response [])"
                              and ssr = True and rt = None],
          where r = "ok_response []"]
       route_precondition
         [OF sample_invoke [where cs = "[]" and result = "SimpleObject hello_object"
                              and ssr = True and rt = "Some a_txt"],
          where obj = hello_object and rt = a_txt]
       e m
  show ?thesis
    by (simp add: sample_invoke sample_route)
qed

end
